theory Spec2Isabelle
  imports Complex_Main "HOL-Library.Multiset" "HOL-Library.Log_Nat"
begin

section \<open>Python values\<close>

text \<open>
  Exceptions of the source are values: a function that can raise returns
  \<open>py_error + 'a\<close>, with \<open>Inl\<close> for the exception.
\<close>

datatype py_error = KeyError | ValueError

text \<open>
  A Python dict with string keys is an association list in insertion order (keys are
  distinct); \<open>d.get(k, default)\<close> is \<open>dict_get\<close>.
\<close>

type_synonym 'a dict = "(string \<times> 'a) list"

definition dict_get :: "'a dict \<Rightarrow> string \<Rightarrow> 'a \<Rightarrow> 'a" where
  "dict_get d k dflt = (case map_of d k of None \<Rightarrow> dflt | Some v \<Rightarrow> v)"

text \<open>
  The apostrophe (code 39) inside a Python string literal; \<open>py_truthy\<close> is the truth
  value of an optional string (\<open>None\<close> and the empty string are false).
\<close>

definition apostrophe :: char where
  "apostrophe = CHR 0x27"

definition py_truthy :: "string option \<Rightarrow> bool" where
  "py_truthy v = (case v of None \<Rightarrow> False | Some x \<Rightarrow> x \<noteq> [])"

text \<open>A coin breakdown or cost: denomination name to count.\<close>

type_synonym coins = "int dict"

section \<open>Equipment catalog entries (data/equipment/armor.py)\<close>

text \<open>
  Catalog entries are dicts with fixed keys; they are records with the keys the code
  reads. The key \<open>"type"\<close> is the field \<open>armor_type\<close>.
\<close>

record item =
  name :: string
  cost :: coins

record armor_item = item +
  armor_type :: string
  ac :: int
  add_dex :: bool
  max_dex :: "int option"
  stealth_disadvantage :: bool

record shield_item = item +
  ac_bonus :: int

text \<open>
  \<open>ARMOR\<close> maps a category to its list of entries. The entries under \<open>"shield"\<close> have
  other keys than the armor entries, so an entry is one of two records.
\<close>

datatype armor_entry = Armor armor_item | Shield shield_item

definition mk_armor :: "string \<Rightarrow> coins \<Rightarrow> int \<Rightarrow> bool \<Rightarrow> int option \<Rightarrow> bool \<Rightarrow> string \<Rightarrow> armor_entry" where
  "mk_armor n c a d m st ty =
     Armor \<lparr>name = n, cost = c, armor_type = ty, ac = a, add_dex = d, max_dex = m,
            stealth_disadvantage = st\<rparr>"

definition ARMOR :: "armor_entry list dict" where
  "ARMOR =
    [(''light'',
       [mk_armor ''Padded'' [(''gp'', 5)] 11 True None True ''light'',
        mk_armor ''Leather'' [(''gp'', 10)] 11 True None False ''light'',
        mk_armor ''Studded Leather'' [(''gp'', 45)] 12 True None False ''light'']),
     (''medium'',
       [mk_armor ''Hide'' [(''gp'', 10)] 12 True (Some 2) False ''medium'',
        mk_armor ''Chain Shirt'' [(''gp'', 50)] 13 True (Some 2) False ''medium'',
        mk_armor ''Scale Mail'' [(''gp'', 50)] 14 True (Some 2) True ''medium'',
        mk_armor ''Breastplate'' [(''gp'', 400)] 14 True (Some 2) False ''medium'',
        mk_armor ''Half Plate'' [(''gp'', 750)] 15 True (Some 2) True ''medium'']),
     (''heavy'',
       [mk_armor ''Ring Mail'' [(''gp'', 30)] 14 False (Some 0) True ''heavy'',
        mk_armor ''Chain Mail'' [(''gp'', 75)] 16 False (Some 0) True ''heavy'',
        mk_armor ''Splint'' [(''gp'', 200)] 17 False (Some 0) True ''heavy'',
        mk_armor ''Plate'' [(''gp'', 1500)] 18 False (Some 0) True ''heavy'']),
     (''shield'',
       [Shield \<lparr>name = ''Shield'', cost = [(''gp'', 10)], ac_bonus = 2\<rparr>])]"

section \<open>Armor class (utils/armor_utils.py)\<close>

text \<open>
  \<open>calculate_ac(armor=None, shield=None, dex_modifier=0)\<close>. \<open>if not armor\<close> returns at
  once, before the shield is looked at.
\<close>

definition calculate_ac :: "armor_item option \<Rightarrow> shield_item option \<Rightarrow> int \<Rightarrow> int" where
  "calculate_ac armor shield dex_modifier =
     (let base_ac = 10 in
      case armor of
        None \<Rightarrow> base_ac + dex_modifier
      | Some a \<Rightarrow>
          (let total_ac = ac a;
               total_ac = (if add_dex a
                           then (case max_dex a of
                                   Some m \<Rightarrow> total_ac + min dex_modifier m
                                 | None \<Rightarrow> total_ac + dex_modifier)
                           else total_ac);
               total_ac = (case shield of Some s \<Rightarrow> total_ac + ac_bonus s | None \<Rightarrow> total_ac)
           in total_ac))"

section \<open>Currency helpers of characters.py\<close>

definition COIN_VALUES :: "int dict" where
  "COIN_VALUES = [(''pp'', 500), (''gp'', 100), (''sp'', 10), (''cp'', 1)]"

text \<open>
  \<open>coins_to_cp\<close> sums \<open>COIN_VALUES[d] * count\<close> (\<open>cnt\<close> here) over the items of the dict; a denomination
  that is no key of \<open>COIN_VALUES\<close> raises \<open>KeyError\<close>.
\<close>

fun coins_to_cp :: "coins \<Rightarrow> py_error + int" where
  "coins_to_cp [] = Inr 0"
| "coins_to_cp ((d, cnt) # rest) =
     (case map_of COIN_VALUES d of
        None \<Rightarrow> Inl KeyError
      | Some v \<Rightarrow>
          (case coins_to_cp rest of
             Inl e \<Rightarrow> Inl e
           | Inr s \<Rightarrow> Inr (v * cnt + s)))"

text \<open>
  \<open>cp_to_coins\<close>: the loop over \<open>("pp", "gp", "sp", "cp")\<close> with
  \<open>result[denom], rem = divmod(rem, COIN_VALUES[denom])\<close>. Python's \<open>divmod\<close> on integers
  is floor division, as \<open>div\<close> and \<open>mod\<close> on \<open>int\<close> are.
\<close>

fun cp_to_coins_loop :: "string list \<Rightarrow> int \<Rightarrow> coins \<Rightarrow> py_error + coins" where
  "cp_to_coins_loop [] rem result = Inr result"
| "cp_to_coins_loop (denom # denoms) rem result =
     (case map_of COIN_VALUES denom of
        None \<Rightarrow> Inl KeyError
      | Some v \<Rightarrow> cp_to_coins_loop denoms (rem mod v) (result @ [(denom, rem div v)]))"

definition cp_to_coins :: "int \<Rightarrow> py_error + coins" where
  "cp_to_coins cp_total = cp_to_coins_loop [''pp'', ''gp'', ''sp'', ''cp''] cp_total []"

section \<open>Currency helpers of utils/currency\_utils.py\<close>

text \<open>\<open>convert_to_coins\<close> on an integer copper total (\<open>int(total_cp)\<close> is then the identity).\<close>

definition convert_to_coins :: "int \<Rightarrow> coins" where
  "convert_to_coins total_cp =
     (let pp = total_cp div 1000; remainder = total_cp mod 1000;
          gp = remainder div 100; remainder = remainder mod 100;
          sp = remainder div 10; cp = remainder mod 10
      in [(''pp'', pp), (''gp'', gp), (''sp'', sp), (''cp'', cp)])"

definition get_cost_in_cp :: "coins \<Rightarrow> int" where
  "get_cost_in_cp cost_dict =
     (let tot = 0;
          tot = tot + dict_get cost_dict ''pp'' 0 * 1000;
          tot = tot + dict_get cost_dict ''gp'' 0 * 100;
          tot = tot + dict_get cost_dict ''sp'' 0 * 10;
          tot = tot + dict_get cost_dict ''cp'' 0
      in tot)"

section \<open>Python floats\<close>

text \<open>
  A Python float is an IEEE 754 binary64 number. The amounts of the program are finite
  and far inside the normal range (no overflow, no subnormal number but zero), so a
  float is modelled by the rational it denotes, and an arithmetic operation is the exact
  operation followed by \<open>to_double\<close>: rounding to the nearest number with a significand of
  53 bits, ties to the even significand. \<open>pow2 e\<close> is 2 to the power \<open>e\<close>, \<open>bitlen\<close> is
  the number of binary digits of a positive integer, and \<open>binade p q\<close> is the exponent \<open>e\<close>
  with \<open>2 ^ e \<le> |p / q| < 2 ^ (e + 1)\<close>. The rounding works on the numerator and the
  denominator of the exact result. \<open>float_of_int\<close> is the conversion of an integer,
  which an integer operand of a float operation undergoes first.
\<close>

function pow2 :: "int \<Rightarrow> rat" where
  "pow2 e = (if e = 0 then 1 else if 0 < e then 2 * pow2 (e - 1) else pow2 (e + 1) / 2)"
  by pat_completeness auto
termination
  by (relation "measure (\<lambda>e. nat \<bar>e\<bar>)") auto

declare pow2.simps [simp del]

definition binade :: "int \<Rightarrow> int \<Rightarrow> int" where
  "binade p q =
     (let k = bitlen \<bar>p\<bar> - bitlen q
      in if pow2 k \<le> of_int \<bar>p\<bar> / of_int q then k else k - 1)"

definition round_half_even :: "rat \<Rightarrow> int" where
  "round_half_even q =
     (let f = \<lfloor>q\<rfloor>; r = q - of_int f
      in if r < 1 / 2 then f
         else if 1 / 2 < r then f + 1
         else if even f then f else f + 1)"

fun round_ratio :: "int \<times> int \<Rightarrow> rat" where
  "round_ratio (p, q) =
     (if p = 0 then 0
      else (let ulp = pow2 (binade p q - 52)
            in of_int (round_half_even (of_int p / of_int q / ulp)) * ulp))"

definition to_double :: "rat \<Rightarrow> rat" where
  "to_double x = round_ratio (quotient_of x)"

definition float_of_int :: "int \<Rightarrow> rat" where
  "float_of_int i = to_double (of_int i)"

text \<open>\<open>x + y\<close>, \<open>x - y\<close>, \<open>x * y\<close> and \<open>x / y\<close> on floats.\<close>

definition fadd :: "rat \<Rightarrow> rat \<Rightarrow> rat" where
  "fadd x y = to_double (x + y)"

definition fsub :: "rat \<Rightarrow> rat \<Rightarrow> rat" where
  "fsub x y = to_double (x - y)"

definition fmul :: "rat \<Rightarrow> rat \<Rightarrow> rat" where
  "fmul x y = to_double (x * y)"

definition fdiv :: "rat \<Rightarrow> rat \<Rightarrow> rat" where
  "fdiv x y = to_double (x / y)"

text \<open>\<open>int(x)\<close> truncates towards zero.\<close>

definition py_int :: "rat \<Rightarrow> int" where
  "py_int x = (if 0 \<le> x then \<lfloor>x\<rfloor> else \<lceil>x\<rceil>)"

text \<open>
  \<open>x % y\<close> and \<open>x // y\<close> on floats, as the interpreter computes them: from C's \<open>fmod\<close>,
  which is exact and has the sign of \<open>x\<close>, corrected when the signs of the remainder and
  of \<open>y\<close> differ. The divisor is the literal 10 wherever the program uses them, so the
  division by zero does not arise.
\<close>

definition py_fmod :: "rat \<Rightarrow> rat \<Rightarrow> rat" where
  "py_fmod x y = x - y * of_int (py_int (x / y))"

definition py_mod :: "rat \<Rightarrow> rat \<Rightarrow> rat" where
  "py_mod x y =
     (let m = py_fmod x y
      in if m \<noteq> 0
         then (if (y < 0) \<noteq> (m < 0) then fadd m y else m)
         else 0)"

definition py_floordiv :: "rat \<Rightarrow> rat \<Rightarrow> rat" where
  "py_floordiv x y =
     (let m = py_fmod x y;
          d = fdiv (fsub x m) y;
          d = (if m \<noteq> 0 \<and> (y < 0) \<noteq> (m < 0) then fsub d 1 else d)
      in if d \<noteq> 0
         then (let fl = of_int \<lfloor>d\<rfloor>
               in if 1 / 2 < fsub d fl then fadd fl 1 else fl)
         else 0)"

text \<open>
  \<open>convert_gp_to_coins\<close> (utils/currency\_utils.py) on a float. The integers that meet a
  float here (10, and the coin counts just taken by \<open>int\<close>) are floats themselves. The view
  also calls it with the integer budget, one of the starting gold amounts; on such an
  integer the integer operations of Python give what the float operations give here.
\<close>

definition convert_gp_to_coins :: "rat \<Rightarrow> coins" where
  "convert_gp_to_coins total_gp =
     (let pp = py_int (py_floordiv total_gp 10);
          remainder_gp = py_mod total_gp 10;
          gp = py_int remainder_gp;
          fractional_gp = fsub remainder_gp (of_int gp);
          total_sp = fmul fractional_gp 10;
          sp = py_int total_sp;
          fractional_sp = fsub total_sp (of_int sp);
          cp = py_int (fmul fractional_sp 10)
      in [(''pp'', pp), (''gp'', gp), (''sp'', sp), (''cp'', cp)])"

text \<open>
  \<open>EquipmentForm._convert_to_gp\<close> (forms/equipment\_form\_clean.py): \<open>total = 0.0\<close> and
  four \<open>total += ...\<close>, each a float addition. The coin counts are integers: \<open>pp * 10\<close> is
  an integer product, converted when it is added, and \<open>sp / 10\<close> and \<open>cp / 100\<close> are true
  divisions of integers, which give the float nearest to the quotient.
\<close>

definition convert_to_gp :: "coins \<Rightarrow> rat" where
  "convert_to_gp c =
     (let tot = 0;
          tot = fadd tot (float_of_int (dict_get c ''pp'' 0 * 10));
          tot = fadd tot (float_of_int (dict_get c ''gp'' 0));
          tot = fadd tot (fdiv (of_int (dict_get c ''sp'' 0)) 10);
          tot = fadd tot (fdiv (of_int (dict_get c ''cp'' 0)) 100)
      in tot)"

section \<open>Rolling an ability score (characters.py, roll\_stat)\<close>

text \<open>
  \<open>random.randint(1, 6)\<close> reads the next value of an injected sequence of dice and
  returns the rest of the sequence with it; \<open>None\<close> when the sequence is used up, which
  is also the value of a roll that never ends.
\<close>

definition randint :: "int list \<Rightarrow> (int \<times> int list) option" where
  "randint dice = (case dice of [] \<Rightarrow> None | r # rest \<Rightarrow> Some (r, rest))"

text \<open>The inner loop \<open>while roll <= 2: roll = random.randint(1, 6)\<close>.\<close>

fun reroll :: "int \<Rightarrow> int list \<Rightarrow> (int \<times> int list) option" where
  "reroll roll [] = (if roll \<le> 2 then None else Some (roll, []))"
| "reroll roll (r # rest) = (if roll \<le> 2 then reroll r rest else Some (roll, r # rest))"

text \<open>The outer loop \<open>for _ in range(4)\<close>, appending each kept die to \<open>rolls\<close>.\<close>

fun roll_dice :: "nat \<Rightarrow> int list \<Rightarrow> int list \<Rightarrow> (int list \<times> int list) option" where
  "roll_dice 0 rolls dice = Some (rolls, dice)"
| "roll_dice (Suc n) rolls dice =
     (case randint dice of
        None \<Rightarrow> None
      | Some (roll, dice') \<Rightarrow>
          (case reroll roll dice' of
             None \<Rightarrow> None
           | Some (roll', dice'') \<Rightarrow> roll_dice n (rolls @ [roll']) dice''))"

text \<open>\<open>rolls = sorted(rolls); return sum(rolls[1:])\<close>.\<close>

definition roll_stat :: "int list \<Rightarrow> (int \<times> int list) option" where
  "roll_stat dice =
     (case roll_dice 4 [] dice of
        None \<Rightarrow> None
      | Some (rolls, dice') \<Rightarrow> Some (sum_list (drop 1 (sort rolls)), dice'))"

section \<open>Skill selection (data/class\_skills.py, forms/skills\_form.py, step4\_skills)\<close>















section \<open>Requests, responses and the session\<close>

datatype http_method = GET | POST

record weapon_item = item +
  category :: string
  damage :: string
  damage_type :: string
  properties :: "string list"

text \<open>An entry of \<open>equipment['unusable_items']\<close>; the key \<open>"type"\<close> is \<open>item_type\<close>.\<close>

record unusable_item =
  item_name :: string
  item_type :: string
  reason :: string

text \<open>The equipment dict that \<open>EquipmentForm.selected_equipment\<close> builds and the route completes.\<close>

record equipment =
  armor :: "armor_item option"
  shield :: "shield_item option"
  weapons :: "weapon_item list"
  adventuring_gear :: "item list"
  special_equipment :: "item dict"
  total_cost_gp :: rat
  armor_class :: int
  unusable_items :: "unusable_item list"

text \<open>
  The Flask session is a dict with a fixed set of keys; a key that is absent is \<open>None\<close>.
  The key \<open>"class"\<close> is the field \<open>sess_class\<close>.
\<close>

record session =
  stats :: "int dict option"
  race :: "string option"
  adjusted_stats :: "int dict option"
  constitution_modifier :: "int option"
  sess_class :: "string option"
  primary_ability :: "string option"
  max_hp :: "int option"
  current_hp :: "int option"
  expertise :: "string list option"
  skill_proficiencies :: "string list option"
  skills :: "string list option"
  fighting_style :: "string option"
  cantrips :: "string list option"
  level1_spells :: "string list option"
  spells_preparable :: "int option"
  equipment :: "equipment option"
  coins_left :: "coins option"
  previous_class :: "string option"
  character_name :: "string option"

text \<open>The session after \<open>session.clear()\<close>.\<close>

definition empty_session :: session where
  "empty_session =
     \<lparr>stats = None, race = None, adjusted_stats = None, constitution_modifier = None,
      sess_class = None, primary_ability = None, max_hp = None, current_hp = None,
      expertise = None, skill_proficiencies = None, skills = None, fighting_style = None,
      cantrips = None, level1_spells = None, spells_preparable = None, equipment = None,
      coins_left = None, previous_class = None, character_name = None\<rparr>"

text \<open>
  A view returns a redirect to another view or a rendered template; the messages it
  flashes are returned beside the session and the response.
\<close>

text \<open>
  The template context of the equipment page: the values the view passes to
  \<open>render_template\<close> (\<open>preview\<close> and \<open>equipment\<close> are not passed by every call).
\<close>

record equipment_page =
  pg_starting_funds :: int
  pg_remaining_coins :: coins
  pg_remaining_funds :: rat
  pg_preview :: "bool option"
  pg_equipment :: "equipment option"

datatype response = Redirect string | Render string | RenderEquipment equipment_page

type_synonym outcome = "session \<times> response \<times> string list"

section \<open>Choosing a class (characters.py, step3\_class)\<close>

definition CLASS_HIT_DIE :: "int dict" where
  "CLASS_HIT_DIE = [(''Cleric'', 8), (''Fighter'', 10), (''Rogue'', 8), (''Wizard'', 6)]"

record class_request =
  cr_method :: http_method
  cr_csrf_ok :: bool
  cr_class_choice :: "string option"
  cr_primary_ability :: "string option"

text \<open>
  \<open>ClassForm(classes).validate_on_submit()\<close>: a POST whose \<open>class_choice\<close> is given and is
  one of the choices the form was built with, and whose optional \<open>primary_ability\<close> is
  one of its two choices.
\<close>

definition ClassForm_validate_on_submit :: "string list \<Rightarrow> class_request \<Rightarrow> bool" where
  "ClassForm_validate_on_submit classes req =
     (cr_method req = POST \<and> cr_csrf_ok req
      \<and> (case cr_class_choice req of None \<Rightarrow> False | Some c \<Rightarrow> c \<in> set classes)
      \<and> (case cr_primary_ability req of
            None \<Rightarrow> True
          | Some a \<Rightarrow> a \<in> set [''strength'', ''dexterity'']))"

definition step3_class :: "class_request \<Rightarrow> session \<Rightarrow> py_error + outcome" where
  "step3_class req s =
     (let classes = [''Fighter'', ''Wizard'', ''Rogue'', ''Cleric''] in
      if ClassForm_validate_on_submit classes req
      then
        (case cr_class_choice req of
           None \<Rightarrow> Inr (s, Render ''class.html'', [])
         | Some chosen_class \<Rightarrow>
            (let s = s\<lparr>sess_class := Some chosen_class\<rparr>;
                 s = (if chosen_class \<noteq> ''Rogue'' then s\<lparr>expertise := Some []\<rparr> else s);
                 s = s\<lparr>equipment := None\<rparr>;
                 s = s\<lparr>coins_left := None\<rparr>;
                 s = s\<lparr>skill_proficiencies := None\<rparr>;
                 s = s\<lparr>fighting_style := None\<rparr>;
                 s = s\<lparr>cantrips := None\<rparr>;
                 s = s\<lparr>level1_spells := None\<rparr>
             in case map_of CLASS_HIT_DIE chosen_class of
                  None \<Rightarrow> Inl KeyError
                | Some hit_die \<Rightarrow>
                   (let con_mod = (case constitution_modifier s of None \<Rightarrow> 0 | Some c \<Rightarrow> c);
                        hp = hit_die + con_mod;
                        s = s\<lparr>max_hp := Some hp\<rparr>;
                        s = s\<lparr>current_hp := Some hp\<rparr>
                    in if chosen_class = ''Fighter''
                       then (if py_truthy (cr_primary_ability req)
                             then Inr (s\<lparr>primary_ability := cr_primary_ability req\<rparr>,
                                       Redirect ''characters.fighter_selection'', [])
                             else Inr (s, Render ''class.html'',
                                       [''Fighters must select a primary ability: Strength or Dexterity.'']))
                       else
                         (let primary_abilities =
                                [(''Wizard'', ''Intelligence''), (''Cleric'', ''Wisdom''),
                                 (''Rogue'', ''Dexterity'')];
                              s = s\<lparr>primary_ability := map_of primary_abilities chosen_class\<rparr>;
                              s = s\<lparr>fighting_style := None\<rparr>
                          in Inr (s, Redirect ''characters.step4_skills'', [])))))
      else Inr (s, Render ''class.html'', []))"

section \<open>Choosing spells (characters.py, spell\_selection)\<close>

definition wizard_cantrips :: "string list" where
  "wizard_cantrips =
     [''acid_splash'', ''blade_ward'', ''chill_touch'', ''dancing_lights'', ''elementalism'',
      ''fire_bolt'', ''friends'', ''light'', ''mage_hand'', ''mending'', ''message'',
      ''mind_sliver'', ''minor_illusion'', ''poison_spray'', ''prestidigitation'',
      ''ray_of_frost'', ''shocking_grasp'', ''thunderclap'', ''toll_the_dead'', ''true_strike'']"

definition wizard_level1_spells :: "string list" where
  "wizard_level1_spells =
     [''alarm'', ''burning_hands'', ''charm_person'', ''chromatic_orb'', ''color_spray'',
      ''comprehend_languages'', ''detect_magic'', ''disguise_self'', ''expeditious_retreat'',
      ''false_life'', ''feather_fall'', ''find_familiar'', ''fog_cloud'', ''grease'',
      ''ice_knife'', ''identify'', ''illusory_script'', ''jump'', ''longstrider'',
      ''mage_armor'', ''magic_missile'', ''protection_from_evil_and_good'',
      ''ray_of_sickness'', ''shield'', ''silent_image'', ''sleep'',
      ''tashas_hideous_laughter'', ''tensers_floating_disk'', ''thunderwave'',
      ''unseen_servant'', ''witch_bolt'']"

definition cleric_cantrips :: "string list" where
  "cleric_cantrips =
     [''guidance'', ''light'', ''mending'', ''resistance'', ''sacred_flame'',
      ''spare_the_dying'', ''thaumaturgy'', ''toll_the_dead'', ''word_of_radiance'']"

definition level1_cleric_spells :: "string list" where
  "level1_cleric_spells =
     [''bane'', ''bless'', ''command'', ''create_or_destroy_water'', ''cure_wounds'',
      ''detect_evil_and_good'', ''detect_magic'', ''detect_poison_and_disease'',
      ''guiding_bolt'', ''healing_word'', ''inflict_wounds'',
      ''protection_from_evil_and_good'', ''purify_food_and_drink'', ''sanctuary'',
      ''shield_of_faith'']"

text \<open>
  String helpers of \<open>parse_spell_data\<close>: \<open>s.strip(chars)\<close>, \<open>s.replace("'", "")\<close> and the
  first part of \<open>s.split(", ")\<close>.
\<close>

definition py_strip :: "char list \<Rightarrow> string \<Rightarrow> string" where
  "py_strip chars s =
     rev (dropWhile (\<lambda>c. c \<in> set chars) (rev (dropWhile (\<lambda>c. c \<in> set chars) s)))"

fun first_part :: "string \<Rightarrow> string" where
  "first_part [] = []"
| "first_part [c] = [c]"
| "first_part (c # d # rest) =
     (if c = CHR '','' \<and> d = CHR '' '' then [] else c # first_part (d # rest))"

definition whitespace :: "char list" where
  "whitespace = [CHR '' '', char_of (9 :: nat), char_of (10 :: nat), char_of (11 :: nat),
                 char_of (12 :: nat), char_of (13 :: nat)]"

definition parse_spell_data :: "string \<Rightarrow> string" where
  "parse_spell_data spell_value =
     (if take 2 spell_value = [CHR ''('', apostrophe] \<and> apostrophe \<in> set spell_value
      then (let cleaned = filter (\<lambda>c. c \<noteq> apostrophe) (py_strip ''()'' spell_value)
            in py_strip whitespace (first_part cleaned))
      else spell_value)"

record spell_request =
  sr_method :: http_method
  sr_cantrips :: "string list"
  sr_level1_spells :: "string list"

definition spell_selection :: "spell_request \<Rightarrow> session \<Rightarrow> outcome" where
  "spell_selection req s =
     (case sess_class s of
        None \<Rightarrow> (s, Redirect ''characters.step3_class'', [])
      | Some char_class \<Rightarrow>
         if char_class = [] \<or> char_class \<notin> set [''Wizard'', ''Cleric'']
         then (s, Redirect ''characters.step3_class'', [])
         else
          (let wisdom_score = (case adjusted_stats s of
                                 None \<Rightarrow> 10
                               | Some st \<Rightarrow> dict_get st ''wisdom'' 10);
               wisdom_mod = (wisdom_score - 10) div 2;
               prep = (if char_class = ''Cleric'' then max 1 (wisdom_mod + 1) else 6);
               creation_spells = (6 :: nat)
           in if sr_method req = POST
              then
               (let parsed_cantrips = map parse_spell_data (sr_cantrips req);
                    parsed_level1_spells = map parse_spell_data (sr_level1_spells req)
                in if length parsed_cantrips \<noteq> 3
                   then (s, Redirect ''characters.spell_selection'',
                         [''Select exactly 3 cantrips.''])
                   else if length parsed_level1_spells \<noteq> creation_spells
                   then (if char_class = ''Wizard''
                         then (s, Redirect ''characters.spell_selection'',
                               [''Select exactly 3 cantrips and 6 first-level spells for your spellbook.''])
                         else (s, Redirect ''characters.spell_selection'',
                               [''Select exactly 3 cantrips and 6 first-level spells to prepare.'']))
                   else
                    (let s = s\<lparr>cantrips := Some parsed_cantrips\<rparr>;
                         s = (if char_class = ''Wizard''
                              then s\<lparr>level1_spells := Some parsed_level1_spells\<rparr>
                              else s\<lparr>level1_spells := Some parsed_level1_spells,
                                     spells_preparable := Some prep\<rparr>)
                     in (s, Redirect ''characters.step5_equipment'', [])))
              else (s, Render ''spells.html'', [])))"

section \<open>Weapon catalog (data/equipment/weapons.py)\<close>

text \<open>
  The keys of a weapon entry that the code reads: name, cost, category, damage, damage
  type and properties.
\<close>

definition mk_weapon ::
  "string \<Rightarrow> coins \<Rightarrow> string \<Rightarrow> string \<Rightarrow> string \<Rightarrow> string list \<Rightarrow> weapon_item" where
  "mk_weapon n c cat dmg dty props =
     \<lparr>name = n, cost = c, category = cat, damage = dmg, damage_type = dty, properties = props\<rparr>"

definition WEAPONS_simple_melee :: "weapon_item list" where
  "WEAPONS_simple_melee =
    [mk_weapon ''Sickle'' [(''gp'', 1)] ''simple'' ''1d4'' ''slashing'' [''light''],
     mk_weapon ''Club'' [(''sp'', 1)] ''simple'' ''1d4'' ''bludgeoning'' [''light''],
     mk_weapon ''Dagger'' [(''gp'', 2)] ''simple'' ''1d4'' ''piercing'' [''finesse'', ''light'', ''thrown''],
     mk_weapon ''Greatclub'' [(''sp'', 2)] ''simple'' ''1d8'' ''bludgeoning'' [''two-handed''],
     mk_weapon ''Handaxe'' [(''gp'', 5)] ''simple'' ''1d6'' ''slashing'' [''light'', ''thrown''],
     mk_weapon ''Light Hammer'' [(''gp'', 2)] ''simple'' ''1d4'' ''bludgeoning'' [''light'', ''thrown''],
     mk_weapon ''Mace'' [(''gp'', 5)] ''simple'' ''1d6'' ''bludgeoning'' [],
     mk_weapon ''Quarterstaff'' [(''sp'', 2)] ''simple'' ''1d6'' ''bludgeoning'' [''versatile''],
     mk_weapon ''Spear'' [(''gp'', 1)] ''simple'' ''1d6'' ''piercing'' [''thrown'', ''versatile'']]"

definition WEAPONS_simple_ranged :: "weapon_item list" where
  "WEAPONS_simple_ranged =
    [mk_weapon ''Light Crossbow'' [(''gp'', 25)] ''simple'' ''1d8'' ''piercing'' [''ammunition'', ''loading'', ''two-handed''],
     mk_weapon ''Dart'' [(''cp'', 5)] ''simple'' ''1d4'' ''piercing'' [''finesse'', ''thrown''],
     mk_weapon ''Shortbow'' [(''gp'', 25)] ''simple'' ''1d6'' ''piercing'' [''ammunition'', ''two-handed''],
     mk_weapon ''Sling'' [(''sp'', 1)] ''simple'' ''1d4'' ''bludgeoning'' [''ammunition'']]"

definition WEAPONS_martial_melee :: "weapon_item list" where
  "WEAPONS_martial_melee =
    [mk_weapon ''Flail'' [(''gp'', 10)] ''martial'' ''1d8'' ''bludgeoning'' [],
     mk_weapon ''Glaive'' [(''gp'', 20)] ''martial'' ''1d10'' ''slashing'' [''heavy'', ''reach'', ''two-handed''],
     mk_weapon ''Greataxe'' [(''gp'', 30)] ''martial'' ''1d12'' ''slashing'' [''heavy'', ''two-handed''],
     mk_weapon ''Greatsword'' [(''gp'', 50)] ''martial'' ''2d6'' ''slashing'' [''heavy'', ''two-handed''],
     mk_weapon ''Halberd'' [(''gp'', 20)] ''martial'' ''1d10'' ''slashing'' [''heavy'', ''reach'', ''two-handed''],
     mk_weapon ''Lance'' [(''gp'', 10)] ''martial'' ''1d12'' ''piercing'' [''reach'', ''special''],
     mk_weapon ''Maul'' [(''gp'', 10)] ''martial'' ''2d6'' ''bludgeoning'' [''heavy'', ''two-handed''],
     mk_weapon ''Morningstar'' [(''gp'', 15)] ''martial'' ''1d8'' ''piercing'' [],
     mk_weapon ''Pike'' [(''gp'', 5)] ''martial'' ''1d10'' ''piercing'' [''heavy'', ''reach'', ''two-handed''],
     mk_weapon ''Scimitar'' [(''gp'', 25)] ''martial'' ''1d6'' ''slashing'' [''finesse'', ''light''],
     mk_weapon ''Trident'' [(''gp'', 5)] ''martial'' ''1d8'' ''piercing'' [''thrown'', ''versatile''],
     mk_weapon ''Warhammer'' [(''gp'', 15)] ''martial'' ''1d8'' ''bludgeoning'' [''versatile''],
     mk_weapon ''War Pick'' [(''gp'', 5)] ''martial'' ''1d8'' ''piercing'' [''versatile''],
     mk_weapon ''Whip'' [(''gp'', 2)] ''martial'' ''1d4'' ''slashing'' [''finesse'', ''reach''],
     mk_weapon ''Battleaxe'' [(''gp'', 10)] ''martial'' ''1d8'' ''slashing'' [''versatile''],
     mk_weapon ''Longsword'' [(''gp'', 15)] ''martial'' ''1d8'' ''slashing'' [''versatile''],
     mk_weapon ''Rapier'' [(''gp'', 25)] ''martial'' ''1d8'' ''piercing'' [''finesse''],
     mk_weapon ''Shortsword'' [(''gp'', 10)] ''martial'' ''1d6'' ''piercing'' [''finesse'', ''light'']]"

definition WEAPONS_martial_ranged :: "weapon_item list" where
  "WEAPONS_martial_ranged =
    [mk_weapon ''Blowgun'' [(''gp'', 10)] ''martial'' ''1'' ''piercing'' [''ammunition'', ''loading''],
     mk_weapon ''Hand Crossbow'' [(''gp'', 75)] ''martial'' ''1d6'' ''piercing'' [''ammunition'', ''light'', ''loading''],
     mk_weapon ''Heavy Crossbow'' [(''gp'', 50)] ''martial'' ''1d10'' ''piercing'' [''ammunition'', ''heavy'', ''loading'', ''two-handed''],
     mk_weapon ''Longbow'' [(''gp'', 50)] ''martial'' ''1d8'' ''piercing'' [''ammunition'', ''heavy'', ''two-handed'']]"

definition WEAPONS :: "weapon_item list dict" where
  "WEAPONS =
    [(''simple_melee'', WEAPONS_simple_melee),
     (''simple_ranged'', WEAPONS_simple_ranged),
     (''martial_melee'', WEAPONS_martial_melee),
     (''martial_ranged'', WEAPONS_martial_ranged)]"

section \<open>Gear catalogs (data/equipment/adventuring\_gear.py)\<close>

definition mk_item :: "string \<Rightarrow> coins \<Rightarrow> item" where
  "mk_item n c = \<lparr>name = n, cost = c\<rparr>"

definition AMMUNITION_OPTIONS :: "item dict" where
  "AMMUNITION_OPTIONS =
    [(''arrows'', mk_item ''Arrows (20)'' [(''gp'', 1)]),
     (''bolts'', mk_item ''Crossbow Bolts (20)'' [(''gp'', 1)]),
     (''needles'', mk_item ''Blowgun Needles (50)'' [(''gp'', 1)])]"

definition ARCANE_FOCUS_OPTIONS :: "item dict" where
  "ARCANE_FOCUS_OPTIONS =
    [(''crystal'', mk_item ''Crystal'' [(''gp'', 10)]),
     (''orb'', mk_item ''Orb'' [(''gp'', 20)]),
     (''rod'', mk_item ''Rod'' [(''gp'', 10)]),
     (''staff'', mk_item ''Staff'' [(''gp'', 5)]),
     (''wand'', mk_item ''Wand'' [(''gp'', 10)])]"

definition HOLY_SYMBOL_OPTIONS :: "item dict" where
  "HOLY_SYMBOL_OPTIONS =
    [(''amulet'', mk_item ''Amulet'' [(''gp'', 5)]),
     (''emblem'', mk_item ''Emblem'' [(''gp'', 5)]),
     (''reliquary'', mk_item ''Reliquary'' [(''gp'', 5)])]"

definition MUSICAL_INSTRUMENT_OPTIONS :: "item dict" where
  "MUSICAL_INSTRUMENT_OPTIONS =
    [(''bagpipes'', mk_item ''Bagpipes'' [(''gp'', 30)]),
     (''drum'', mk_item ''Drum'' [(''gp'', 6)]),
     (''dulcimer'', mk_item ''Dulcimer'' [(''gp'', 25)]),
     (''flute'', mk_item ''Flute'' [(''gp'', 2)]),
     (''lute'', mk_item ''Lute'' [(''gp'', 35)]),
     (''lyre'', mk_item ''Lyre'' [(''gp'', 30)]),
     (''horn'', mk_item ''Horn'' [(''gp'', 3)]),
     (''pan_flute'', mk_item ''Pan Flute'' [(''gp'', 12)]),
     (''shawm'', mk_item ''Shawm'' [(''gp'', 2)]),
     (''viol'', mk_item ''Viol'' [(''gp'', 30)])]"

definition TOOL_OPTIONS :: "item dict" where
  "TOOL_OPTIONS =
    [(''alchemists_supplies'', mk_item ''Alchemist's Supplies'' [(''gp'', 50)]),
     (''brewers_supplies'', mk_item ''Brewer's Supplies'' [(''gp'', 20)]),
     (''calligraphers_supplies'', mk_item ''Calligrapher's Supplies'' [(''gp'', 10)]),
     (''carpenters_tools'', mk_item ''Carpenter's Tools'' [(''gp'', 8)]),
     (''cartographers_tools'', mk_item ''Cartographer's Tools'' [(''gp'', 15)]),
     (''cobblers_tools'', mk_item ''Cobbler's Tools'' [(''gp'', 5)]),
     (''cooks_utensils'', mk_item ''Cook's Utensils'' [(''gp'', 2)]),
     (''glassblowers_tools'', mk_item ''Glassblower's Tools'' [(''gp'', 30)]),
     (''jewelers_tools'', mk_item ''Jeweler's Tools'' [(''gp'', 25)]),
     (''leatherworkers_tools'', mk_item ''Leatherworker's Tools'' [(''gp'', 5)]),
     (''masons_tools'', mk_item ''Mason's Tools'' [(''gp'', 10)]),
     (''painters_supplies'', mk_item ''Painter's Supplies'' [(''gp'', 10)]),
     (''potters_tools'', mk_item ''Potter's Tools'' [(''gp'', 10)]),
     (''smiths_tools'', mk_item ''Smith's Tools'' [(''gp'', 20)]),
     (''tinkers_tools'', mk_item ''Tinker's Tools'' [(''gp'', 50)]),
     (''weavers_tools'', mk_item ''Weaver's Tools'' [(''gp'', 1)]),
     (''woodcarvers_tools'', mk_item ''Woodcarver's Tools'' [(''gp'', 1)]),
     (''disguise_kit'', mk_item ''Disguise Kit'' [(''gp'', 25)]),
     (''forgery_kit'', mk_item ''Forgery Kit'' [(''gp'', 15)]),
     (''herbalism_kit'', mk_item ''Herbalism Kit'' [(''gp'', 5)]),
     (''navigators_tools'', mk_item ''Navigator's Tools'' [(''gp'', 25)]),
     (''poisoners_kit'', mk_item ''Poisoner's Kit'' [(''gp'', 50)]),
     (''thieves_tools'', mk_item ''Thieves' Tools'' [(''gp'', 25)])]"

definition ADVENTURING_GEAR :: "item dict" where
  "ADVENTURING_GEAR =
    [(''acid'', mk_item ''Acid'' [(''gp'', 25)]),
     (''alchemists_fire'', mk_item ''Alchemist's Fire'' [(''gp'', 50)]),
     (''antitoxin'', mk_item ''Antitoxin'' [(''gp'', 50)]),
     (''backpack'', mk_item ''Backpack'' [(''gp'', 2)]),
     (''ball_bearings'', mk_item ''Ball Bearings (bag of 1000)'' [(''gp'', 1)]),
     (''barrel'', mk_item ''Barrel'' [(''gp'', 2)]),
     (''basket'', mk_item ''Basket'' [(''sp'', 4)]),
     (''bedroll'', mk_item ''Bedroll'' [(''gp'', 1)]),
     (''bell'', mk_item ''Bell'' [(''gp'', 1)]),
     (''blanket'', mk_item ''Blanket'' [(''sp'', 5)]),
     (''block_and_tackle'', mk_item ''Block and Tackle'' [(''gp'', 1)]),
     (''book'', mk_item ''Book'' [(''gp'', 25)]),
     (''glass_bottle'', mk_item ''Glass Bottle'' [(''gp'', 2)]),
     (''bucket'', mk_item ''Bucket'' [(''cp'', 5)]),
     (''burglars_pack'', mk_item ''Burglar's Pack'' [(''gp'', 16)]),
     (''caltrops'', mk_item ''Caltrops (bag of 20)'' [(''gp'', 1)]),
     (''candle'', mk_item ''Candle'' [(''cp'', 1)]),
     (''crossbow_bolt_case'', mk_item ''Crossbow Bolt Case'' [(''gp'', 1)]),
     (''map_case'', mk_item ''Map or Scroll Case'' [(''gp'', 1)]),
     (''chain'', mk_item ''Chain (10 feet)'' [(''gp'', 5)]),
     (''chest'', mk_item ''Chest'' [(''gp'', 5)]),
     (''climbers_kit'', mk_item ''Climber's Kit'' [(''gp'', 25)]),
     (''clothes_fine'', mk_item ''Fine Clothes'' [(''gp'', 15)]),
     (''clothes_travelers'', mk_item ''Traveler's Clothes'' [(''gp'', 2)]),
     (''component_pouch'', mk_item ''Component Pouch'' [(''gp'', 25)]),
     (''costume'', mk_item ''Costume'' [(''gp'', 5)]),
     (''crowbar'', mk_item ''Crowbar'' [(''gp'', 2)]),
     (''diplomats_pack'', mk_item ''Diplomat's Pack'' [(''gp'', 39)]),
     (''dungeoneers_pack'', mk_item ''Dungeoneer's Pack'' [(''gp'', 12)]),
     (''entertainers_pack'', mk_item ''Entertainer's Pack'' [(''gp'', 40)]),
     (''explorers_pack'', mk_item ''Explorer's Pack'' [(''gp'', 10)]),
     (''flask'', mk_item ''Flask'' [(''cp'', 2)]),
     (''grappling_hook'', mk_item ''Grappling Hook'' [(''gp'', 2)]),
     (''healers_kit'', mk_item ''Healer's Kit'' [(''gp'', 5)]),
     (''holy_water'', mk_item ''Holy Water (flask)'' [(''gp'', 25)]),
     (''hunting_trap'', mk_item ''Hunting Trap'' [(''gp'', 5)]),
     (''ink'', mk_item ''Ink (1 ounce bottle)'' [(''gp'', 10)]),
     (''ink_pen'', mk_item ''Ink Pen'' [(''cp'', 2)]),
     (''jug'', mk_item ''Jug'' [(''cp'', 2)]),
     (''ladder'', mk_item ''Ladder (10-foot)'' [(''sp'', 1)]),
     (''lamp'', mk_item ''Lamp'' [(''sp'', 5)]),
     (''lantern_bullseye'', mk_item ''Bullseye Lantern'' [(''gp'', 10)]),
     (''lantern_hooded'', mk_item ''Hooded Lantern'' [(''gp'', 5)]),
     (''lock'', mk_item ''Lock'' [(''gp'', 10)]),
     (''magnifying_glass'', mk_item ''Magnifying Glass'' [(''gp'', 100)]),
     (''manacles'', mk_item ''Manacles'' [(''gp'', 2)]),
     (''map'', mk_item ''Map'' [(''gp'', 1)]),
     (''mirror'', mk_item ''Mirror, Steel'' [(''gp'', 5)]),
     (''net'', mk_item ''Net'' [(''gp'', 1)]),
     (''oil'', mk_item ''Oil (flask)'' [(''sp'', 1)]),
     (''paper'', mk_item ''Paper (one sheet)'' [(''sp'', 2)]),
     (''parchment'', mk_item ''Parchment (one sheet)'' [(''sp'', 1)]),
     (''perfume'', mk_item ''Perfume (vial)'' [(''gp'', 5)]),
     (''basic_poison'', mk_item ''Basic Poison (vial)'' [(''gp'', 100)]),
     (''pole'', mk_item ''Pole (10-foot)'' [(''cp'', 5)]),
     (''iron_pot'', mk_item ''Iron Pot'' [(''gp'', 2)]),
     (''potion_of_healing'', mk_item ''Potion of Healing'' [(''gp'', 50)]),
     (''pouch'', mk_item ''Pouch'' [(''sp'', 5)]),
     (''priests_pack'', mk_item ''Priest's Pack'' [(''gp'', 33)]),
     (''quiver'', mk_item ''Quiver'' [(''gp'', 1)]),
     (''portable_ram'', mk_item ''Portable Ram'' [(''gp'', 4)]),
     (''rations'', mk_item ''Rations (1 day)'' [(''sp'', 5)]),
     (''robe'', mk_item ''Robes'' [(''gp'', 1)]),
     (''rope_hemp'', mk_item ''Rope, Hemp (50 feet)'' [(''gp'', 1)]),
     (''sack'', mk_item ''Sack'' [(''cp'', 1)]),
     (''scholars_pack'', mk_item ''Scholar's Pack'' [(''gp'', 40)]),
     (''shovel'', mk_item ''Shovel'' [(''gp'', 2)]),
     (''signal_whistle'', mk_item ''Signal Whistle'' [(''cp'', 5)]),
     (''iron_spikes'', mk_item ''Iron Spikes (10)'' [(''gp'', 1)]),
     (''string'', mk_item ''String (10 feet)'' [(''sp'', 1)]),
     (''tent'', mk_item ''Tent, Two-person'' [(''gp'', 2)]),
     (''tinderbox'', mk_item ''Tinderbox'' [(''sp'', 5)]),
     (''torch'', mk_item ''Torch'' [(''cp'', 1)]),
     (''vial'', mk_item ''Vial'' [(''gp'', 1)]),
     (''waterskin'', mk_item ''Waterskin'' [(''sp'', 2)])]"

section \<open>Class proficiencies (data/equipment/\_\_init\_\_.py)\<close>

record proficiencies =
  prof_armor :: "string list"
  prof_weapons :: "string list"

definition CLASS_PROFICIENCIES :: "proficiencies dict" where
  "CLASS_PROFICIENCIES =
    [(''Fighter'',
       \<lparr>prof_armor = [''light'', ''medium'', ''heavy'', ''shields''],
        prof_weapons = [''simple_melee'', ''simple_ranged'', ''martial_melee'', ''martial_ranged'']\<rparr>),
     (''Rogue'',
       \<lparr>prof_armor = [''light''],
        prof_weapons = [''simple_melee'', ''simple_ranged'', ''hand crossbow'', ''longsword'',
                        ''rapier'', ''shortsword'']\<rparr>),
     (''Wizard'',
       \<lparr>prof_armor = [],
        prof_weapons = [''dagger'', ''dart'', ''sling'', ''quarterstaff'', ''light crossbow'']\<rparr>),
     (''Cleric'',
       \<lparr>prof_armor = [''light'', ''medium'', ''shields''],
        prof_weapons = [''simple_melee'', ''simple_ranged'']\<rparr>)]"

definition has_armor_proficiency :: "string option \<Rightarrow> string \<Rightarrow> bool" where
  "has_armor_proficiency char_class armor_kind =
     (case char_class of
        None \<Rightarrow> False
      | Some c \<Rightarrow>
          if c = [] then False
          else (case map_of CLASS_PROFICIENCIES c of
                  None \<Rightarrow> False
                | Some p \<Rightarrow> armor_kind \<in> set (prof_armor p)))"

text \<open>
  \<open>has_weapon_proficiency\<close> takes a category string or a weapon dict of the catalog. For
  a dict it looks for the category that lists the weapon and, when the class does not
  have that category, for the lower-case name of the weapon among the proficiencies.
  The equipment step calls it with a category string.
\<close>

datatype weapon_info = Category string | Weapon weapon_item

definition py_lower :: "string \<Rightarrow> string" where
  "py_lower str =
     map (\<lambda>c. let n = of_char c :: int in if 65 \<le> n \<and> n \<le> 90 then char_of (n + 32) else c) str"

definition has_weapon_proficiency :: "string option \<Rightarrow> weapon_info \<Rightarrow> bool" where
  "has_weapon_proficiency char_class weapon_info =
     (case char_class of
        None \<Rightarrow> False
      | Some c \<Rightarrow>
          if c = [] then False
          else (let proficiencies = (case map_of CLASS_PROFICIENCIES c of
                                       None \<Rightarrow> []
                                     | Some p \<Rightarrow> prof_weapons p)
                in case weapon_info of
                     Category cat \<Rightarrow> cat \<in> set proficiencies
                   | Weapon w \<Rightarrow>
                       (let weapon_cat =
                              find (\<lambda>cat. w \<in> set (dict_get WEAPONS cat []))
                                [''simple_melee'', ''simple_ranged'', ''martial_melee'',
                                 ''martial_ranged'']
                        in if (case weapon_cat of
                                 None \<Rightarrow> False
                               | Some cat \<Rightarrow> cat \<in> set proficiencies)
                           then True
                           else py_lower (name w) \<in> set proficiencies)))"

section \<open>Equipment form (forms/equipment\_form\_clean.py)\<close>

text \<open>
  Messages collected in \<open>validation_errors\<close> and flashed by the route. The message that
  formats the amounts is a constructor with the amounts.
\<close>

datatype flash_message = Message string | CostExceedsBudget rat rat

text \<open>
  The data the form is bound to. \<open>fields_ok\<close> is the result of \<open>FlaskForm.validate()\<close>,
  the validation of the form library (CSRF token, field validators). A select field
  without a value is \<open>None\<close>.
\<close>

record equipment_formdata =
  fields_ok :: bool
  fd_armor :: "string option"
  fd_shield :: "string option"
  fd_adventuring_gear :: "string list"
  fd_simple_melee :: "string list"
  fd_simple_ranged :: "string list"
  fd_martial_melee :: "string list"
  fd_martial_ranged :: "string list"
  has_tools :: bool
  tool_selection :: "string option"
  has_musical_instrument :: bool
  musical_instrument_selection :: "string option"
  has_arcane_focus :: bool
  arcane_focus_selection :: "string option"
  has_holy_symbol :: bool
  holy_symbol_selection :: "string option"
  has_ammunition :: bool
  ammunition_selection :: "string option"
  has_spell_scroll :: bool
  spell_scroll_level :: "string option"

text \<open>
  The form object: its data and the attributes \<open>__init__\<close>, the route and \<open>validate\<close>
  set. The budget field holds \<open>str(budget_gp)\<close> of an integer: the record keeps the
  integer, and \<open>validate\<close> reads it with \<open>float\<close>.
\<close>

record EquipmentForm =
  f_data :: equipment_formdata
  f_char_class :: "string option"
  f_budget :: int
  f_remaining_funds :: rat
  f_total_cost :: rat
  f_validation_errors :: "flash_message list"

definition EquipmentForm_init :: "equipment_formdata \<Rightarrow> EquipmentForm" where
  "EquipmentForm_init d =
     \<lparr>f_data = d, f_char_class = None, f_budget = 0, f_remaining_funds = 0, f_total_cost = 0,
      f_validation_errors = []\<rparr>"

text \<open>The form without submitted data, as a GET builds it.\<close>

definition no_formdata :: equipment_formdata where
  "no_formdata =
     \<lparr>fields_ok = False, fd_armor = None, fd_shield = None, fd_adventuring_gear = [],
      fd_simple_melee = [], fd_simple_ranged = [], fd_martial_melee = [],
      fd_martial_ranged = [], has_tools = False, tool_selection = None,
      has_musical_instrument = False, musical_instrument_selection = None,
      has_arcane_focus = False, arcane_focus_selection = None, has_holy_symbol = False,
      holy_symbol_selection = None, has_ammunition = False, ammunition_selection = None,
      has_spell_scroll = False, spell_scroll_level = None\<rparr>"

text \<open>
  \<open>s.split(':')\<close> and the unpacking \<open>a, b = parts\<close>, which raises \<open>ValueError\<close> unless
  there are exactly two parts. \<open>bind_err\<close> passes an exception on.
\<close>

fun split_on :: "char \<Rightarrow> string \<Rightarrow> string list" where
  "split_on sep [] = [[]]"
| "split_on sep (c # cs) =
     (if c = sep then [] # split_on sep cs
      else (case split_on sep cs of
              [] \<Rightarrow> [[c]]
            | p # ps \<Rightarrow> (c # p) # ps))"

definition unpack2 :: "string list \<Rightarrow> py_error + (string \<times> string)" where
  "unpack2 parts = (case parts of [a, b] \<Rightarrow> Inr (a, b) | _ \<Rightarrow> Inl ValueError)"

definition bind_err :: "'e + 'a \<Rightarrow> ('a \<Rightarrow> 'e + 'b) \<Rightarrow> 'e + 'b" where
  "bind_err m f = (case m of Inl e \<Rightarrow> Inl e | Inr x \<Rightarrow> f x)"

definition entry_name :: "armor_entry \<Rightarrow> string" where
  "entry_name e = (case e of Armor a \<Rightarrow> name a | Shield sh \<Rightarrow> name sh)"

definition entry_cost :: "armor_entry \<Rightarrow> coins" where
  "entry_cost e = (case e of Armor a \<Rightarrow> cost a | Shield sh \<Rightarrow> cost sh)"

text \<open>
  \<open>calculate_total_cost\<close>, block by block, with the running \<open>total_gp\<close> passed along:
  it starts at \<open>0.0\<close> and every \<open>total_gp += ...\<close> is a float addition, in the order of
  the source. The armor block and the shield block are the same code on
  \<open>self.armor.data\<close> and \<open>self.shield.data\<close>: split the value, index \<open>ARMOR\<close> by the
  category, add the cost of the first entry with the name.
\<close>

definition armor_field_cost :: "rat \<Rightarrow> string option \<Rightarrow> py_error + rat" where
  "armor_field_cost total_gp field_data =
     (case field_data of
        None \<Rightarrow> Inr total_gp
      | Some d \<Rightarrow>
          if d = [] then Inr total_gp
          else bind_err (unpack2 (split_on CHR '':'' d)) (\<lambda>(armor_kind, armor_name).
                 case map_of ARMOR armor_kind of
                   None \<Rightarrow> Inl KeyError
                 | Some entries \<Rightarrow>
                     (case find (\<lambda>a. entry_name a = armor_name) entries of
                        None \<Rightarrow> Inr total_gp
                      | Some a \<Rightarrow> Inr (fadd total_gp (convert_to_gp (entry_cost a))))))"

text \<open>
  The loops over the four weapon fields, one after the other, are one loop over their
  values in that order.
\<close>

fun weapons_cost :: "rat \<Rightarrow> string list \<Rightarrow> py_error + rat" where
  "weapons_cost total_gp [] = Inr total_gp"
| "weapons_cost total_gp (weapon_id # rest) =
     bind_err (unpack2 (split_on CHR '':'' weapon_id)) (\<lambda>(weapon_category, weapon_name).
       case map_of WEAPONS weapon_category of
         None \<Rightarrow> Inl KeyError
       | Some ws \<Rightarrow>
           weapons_cost
             (case find (\<lambda>w. name w = weapon_name) ws of
                None \<Rightarrow> total_gp
              | Some w \<Rightarrow> fadd total_gp (convert_to_gp (cost w)))
             rest)"

definition option_cost :: "rat \<Rightarrow> bool \<Rightarrow> string option \<Rightarrow> item dict \<Rightarrow> rat" where
  "option_cost total_gp has selection options =
     (if has \<and> py_truthy selection
      then (case selection of
              None \<Rightarrow> total_gp
            | Some k \<Rightarrow> (case map_of options k of
                          None \<Rightarrow> total_gp
                        | Some it \<Rightarrow> fadd total_gp (convert_to_gp (cost it))))
      else total_gp)"

definition spell_scroll_cost :: "rat \<Rightarrow> equipment_formdata \<Rightarrow> rat" where
  "spell_scroll_cost total_gp d =
     (if has_spell_scroll d
      then (if spell_scroll_level d = Some ''0'' then fadd total_gp 30
            else if spell_scroll_level d = Some ''1'' then fadd total_gp 50 else total_gp)
      else total_gp)"

fun gear_cost :: "rat \<Rightarrow> string list \<Rightarrow> rat" where
  "gear_cost total_gp [] = total_gp"
| "gear_cost total_gp (item_id # rest) =
     gear_cost
       (case map_of ADVENTURING_GEAR item_id of
          None \<Rightarrow> total_gp
        | Some it \<Rightarrow> fadd total_gp (convert_to_gp (cost it)))
       rest"

definition calculate_total_cost :: "EquipmentForm \<Rightarrow> py_error + rat" where
  "calculate_total_cost form =
     (let d = f_data form; total_gp = 0 in
      bind_err (armor_field_cost total_gp (fd_armor d)) (\<lambda>total_gp.
      bind_err (armor_field_cost total_gp (fd_shield d)) (\<lambda>total_gp.
      bind_err (weapons_cost total_gp (fd_simple_melee d @ fd_simple_ranged d
                                       @ fd_martial_melee d @ fd_martial_ranged d))
        (\<lambda>total_gp.
          let total_gp = option_cost total_gp (has_arcane_focus d) (arcane_focus_selection d)
                           ARCANE_FOCUS_OPTIONS;
              total_gp = option_cost total_gp (has_holy_symbol d) (holy_symbol_selection d)
                           HOLY_SYMBOL_OPTIONS;
              total_gp = option_cost total_gp (has_ammunition d) (ammunition_selection d)
                           AMMUNITION_OPTIONS;
              total_gp = option_cost total_gp (has_musical_instrument d)
                           (musical_instrument_selection d) MUSICAL_INSTRUMENT_OPTIONS;
              total_gp = option_cost total_gp (has_tools d) (tool_selection d) TOOL_OPTIONS;
              total_gp = spell_scroll_cost total_gp d;
              total_gp = gear_cost total_gp (fd_adventuring_gear d)
          in Inr total_gp))))"

text \<open>
  \<open>validate\<close>. It returns the verdict and the form with the attributes it has set. The
  total cost is computed before the \<open>try\<close>, so its exceptions pass on; inside the \<open>try\<close> a
  \<open>ValueError\<close> is caught and reported as an invalid budget. \<open>action\<close> is
  \<open>request.form.get('action', '')\<close>.
\<close>

definition add_error :: "EquipmentForm \<Rightarrow> flash_message \<Rightarrow> EquipmentForm" where
  "add_error form m = form\<lparr>f_validation_errors := f_validation_errors form @ [m]\<rparr>"

definition str_of_class :: "string option \<Rightarrow> string" where
  "str_of_class c = (case c of None \<Rightarrow> ''None'' | Some x \<Rightarrow> x)"

definition EquipmentForm_validate ::
  "EquipmentForm \<Rightarrow> string \<Rightarrow> py_error + (bool \<times> EquipmentForm)" where
  "EquipmentForm_validate form action =
     (let d = f_data form in
      if \<not> fields_ok d
      then Inr (False, add_error form
                  (Message ''Form validation failed. Please check all required fields.''))
      else
       bind_err (calculate_total_cost form) (\<lambda>total_cost.
         let budget = float_of_int (f_budget form);
             form = form\<lparr>f_remaining_funds := fsub budget total_cost\<rparr>;
             form = form\<lparr>f_total_cost := total_cost\<rparr>
         in if total_cost > budget
            then Inr (False, add_error form (CostExceedsBudget total_cost budget))
            else
             (case (if py_truthy (fd_armor d)
                    then (case fd_armor d of
                            None \<Rightarrow> Inr None
                          | Some a \<Rightarrow>
                              bind_err (unpack2 (split_on CHR '':'' a))
                                (\<lambda>(armor_kind, armor_name). Inr (Some armor_kind)))
                    else Inr None) of
                Inl e \<Rightarrow> Inr (False, add_error form (Message ''Invalid budget value''))
              | Inr armor_kind \<Rightarrow>
                 if (case armor_kind of
                       None \<Rightarrow> False
                     | Some k \<Rightarrow> \<not> has_armor_proficiency (f_char_class form) k)
                 then Inr (False, add_error form
                        (Message (str_of_class (f_char_class form)
                                  @ ''s are not proficient with ''
                                  @ (case armor_kind of None \<Rightarrow> [] | Some k \<Rightarrow> k)
                                  @ '' armor'')))
                 else if f_char_class form = Some ''Wizard''
                         \<and> has_holy_symbol d \<and> py_truthy (holy_symbol_selection d)
                 then Inr (False, add_error form (Message ''Wizards cannot use Holy Symbols''))
                 else if f_char_class form \<noteq> Some ''Wizard''
                         \<and> f_char_class form = Some ''Cleric''
                         \<and> has_arcane_focus d \<and> py_truthy (arcane_focus_selection d)
                 then Inr (False, add_error form
                             (Message ''Clerics cannot use Arcane Focus items''))
                 else
                  (let form = form\<lparr>f_total_cost := total_cost\<rparr>;
                       form = form\<lparr>f_remaining_funds := fsub budget total_cost\<rparr>
                   in if action = ''purchase'' \<and> total_cost > budget
                      then Inr (False, add_error form
                                  (Message ''Total cost exceeds available funds''))
                      else Inr (True, form)))))"

text \<open>\<open>selected_equipment\<close>, block by block.\<close>

definition selected_armor :: "string option \<Rightarrow> py_error + armor_item option" where
  "selected_armor field_data =
     (case field_data of
        None \<Rightarrow> Inr None
      | Some d \<Rightarrow>
          if d = [] then Inr None
          else bind_err (unpack2 (split_on CHR '':'' d)) (\<lambda>(cat, nm).
                 case map_of ARMOR cat of
                   None \<Rightarrow> Inl KeyError
                 | Some entries \<Rightarrow>
                     (case find (\<lambda>a. entry_name a = nm) entries of
                        None \<Rightarrow> Inr None
                      | Some (Armor a) \<Rightarrow>
                          Inr (Some \<lparr>name = name a, cost = cost a, armor_type = cat, ac = ac a,
                                     add_dex = add_dex a, max_dex = max_dex a,
                                     stealth_disadvantage = stealth_disadvantage a\<rparr>)
                      | Some (Shield sh) \<Rightarrow> Inl KeyError)))"

definition selected_shield :: "string option \<Rightarrow> py_error + shield_item option" where
  "selected_shield field_data =
     (case field_data of
        None \<Rightarrow> Inr None
      | Some d \<Rightarrow>
          if d = [] then Inr None
          else bind_err (unpack2 (split_on CHR '':'' d)) (\<lambda>(cat, nm).
                 case map_of ARMOR cat of
                   None \<Rightarrow> Inl KeyError
                 | Some entries \<Rightarrow>
                     (case find (\<lambda>a. entry_name a = nm) entries of
                        None \<Rightarrow> Inr None
                      | Some (Shield sh) \<Rightarrow>
                          Inr (Some \<lparr>name = name sh, cost = cost sh, ac_bonus = ac_bonus sh\<rparr>)
                      | Some (Armor a) \<Rightarrow> Inl KeyError)))"

fun selected_weapons :: "string list \<Rightarrow> py_error + weapon_item list" where
  "selected_weapons [] = Inr []"
| "selected_weapons (selection # rest) =
     (if selection = [] then selected_weapons rest
      else bind_err (unpack2 (split_on CHR '':'' selection)) (\<lambda>(cat, nm).
             case map_of WEAPONS cat of
               None \<Rightarrow> Inl KeyError
             | Some ws \<Rightarrow>
                 bind_err (selected_weapons rest) (\<lambda>r.
                   Inr ((case find (\<lambda>w. name w = nm) ws of
                           None \<Rightarrow> []
                         | Some w \<Rightarrow>
                             [\<lparr>name = name w, cost = cost w, category = cat, damage = damage w,
                               damage_type = damage_type w, properties = properties w\<rparr>]) @ r))))"

fun selected_gear :: "string list \<Rightarrow> item list" where
  "selected_gear [] = []"
| "selected_gear (gear_id # rest) =
     (case map_of ADVENTURING_GEAR gear_id of
        None \<Rightarrow> selected_gear rest
      | Some it \<Rightarrow> \<lparr>name = name it, cost = cost it\<rparr> # selected_gear rest)"

definition selected_option :: "string \<Rightarrow> bool \<Rightarrow> string option \<Rightarrow> item dict \<Rightarrow> item dict" where
  "selected_option key has selection options =
     (if has \<and> py_truthy selection
      then (case selection of
              None \<Rightarrow> []
            | Some k \<Rightarrow> (case map_of options k of
                          None \<Rightarrow> []
                        | Some it \<Rightarrow> [(key, \<lparr>name = name it, cost = cost it\<rparr>)]))
      else [])"

definition selected_equipment :: "EquipmentForm \<Rightarrow> py_error + equipment" where
  "selected_equipment form =
     (let d = f_data form in
      bind_err (calculate_total_cost form) (\<lambda>total.
      bind_err (selected_armor (fd_armor d)) (\<lambda>a.
      bind_err (selected_shield (fd_shield d)) (\<lambda>sh.
      bind_err (selected_weapons (fd_simple_melee d @ fd_simple_ranged d
                                  @ fd_martial_melee d @ fd_martial_ranged d)) (\<lambda>ws.
        Inr \<lparr>armor = a, shield = sh, weapons = ws,
             adventuring_gear = selected_gear (fd_adventuring_gear d),
             special_equipment =
               selected_option ''arcane_focus'' (has_arcane_focus d) (arcane_focus_selection d)
                 ARCANE_FOCUS_OPTIONS
               @ selected_option ''holy_symbol'' (has_holy_symbol d) (holy_symbol_selection d)
                   HOLY_SYMBOL_OPTIONS
               @ selected_option ''musical_instrument'' (has_musical_instrument d)
                   (musical_instrument_selection d) MUSICAL_INSTRUMENT_OPTIONS
               @ selected_option ''tools'' (has_tools d) (tool_selection d) TOOL_OPTIONS
               @ selected_option ''ammunition'' (has_ammunition d) (ammunition_selection d)
                   AMMUNITION_OPTIONS,
             total_cost_gp = total, armor_class = 0, unusable_items = []\<rparr>)))))"

section \<open>Equipment step (characters.py, step5\_equipment)\<close>

definition class_starting_gold :: "int dict" where
  "class_starting_gold = [(''Cleric'', 110), (''Fighter'', 155), (''Rogue'', 100), (''Wizard'', 55)]"

record equipment_request =
  er_method :: http_method
  er_referrer :: "string option"
  er_action :: "string option"
  er_formdata :: equipment_formdata

text \<open>\<open>sub in s\<close> on strings.\<close>

fun py_in :: "string \<Rightarrow> string \<Rightarrow> bool" where
  "py_in sub [] = (sub = [])"
| "py_in sub (c # cs) = (take (length sub) (c # cs) = sub \<or> py_in sub cs)"

text \<open>
  The first part of the view, up to the budget: the stored funds and equipment are
  dropped on a GET that comes from the skills step, the dexterity modifier is read
  (\<open>session_dex_mod\<close>: \<open>(session.get("adjusted_stats", {}).get("dexterity", 10) - 10) // 2\<close>), and
  the stored funds are set to the starting gold of the class. It returns the session,
  the dexterity modifier and \<open>budget_gp\<close>; a class without starting gold raises \<open>KeyError\<close>.
\<close>

definition session_dex_mod :: "session \<Rightarrow> int" where
  "session_dex_mod s =
     ((case adjusted_stats s of
         None \<Rightarrow> 10
       | Some st \<Rightarrow> dict_get st ''dexterity'' 10) - 10) div 2"

definition step5_enter ::
  "equipment_request \<Rightarrow> session \<Rightarrow> string \<Rightarrow> py_error + (session \<times> int \<times> int)" where
  "step5_enter req s char_class =
     (let s = (if er_method req = GET \<and> py_truthy (er_referrer req)
                  \<and> (case er_referrer req of None \<Rightarrow> False | Some r \<Rightarrow> py_in ''step4_skills'' r)
               then s\<lparr>coins_left := None, equipment := None\<rparr>
               else s);
          dex_mod = session_dex_mod s
      in case map_of class_starting_gold char_class of
           None \<Rightarrow> Inl KeyError
         | Some starting_gp \<Rightarrow>
            (let s = s\<lparr>coins_left :=
                         Some [(''pp'', 0), (''gp'', starting_gp), (''sp'', 0), (''cp'', 0)]\<rparr>;
                 s = s\<lparr>previous_class := Some char_class\<rparr>;
                 budget_gp = (case coins_left s of
                                None \<Rightarrow> starting_gp
                              | Some c \<Rightarrow> dict_get c ''gp'' starting_gp)
             in Inr (s, dex_mod, budget_gp)))"

text \<open>
  The equipment dict the view starts with. It has the keys armor, shield, weapons,
  armor\_class and total\_cost\_gp; the other fields of the record are empty.
\<close>

definition initial_equipment :: "int \<Rightarrow> equipment" where
  "initial_equipment dex_mod =
     \<lparr>armor = None, shield = None, weapons = [], adventuring_gear = [],
      special_equipment = [], total_cost_gp = 0, armor_class = 10 + dex_mod,
      unusable_items = []\<rparr>"

text \<open>The proficiency checks of the view on the selected equipment.\<close>

definition armor_warnings :: "string \<Rightarrow> equipment \<Rightarrow> unusable_item list" where
  "armor_warnings char_class eq =
     (case armor eq of
        None \<Rightarrow> []
      | Some a \<Rightarrow>
          if \<not> has_armor_proficiency (Some char_class) (armor_type a)
          then [\<lparr>item_name = name a, item_type = ''armor'',
                 reason = ''Not proficient with '' @ armor_type a @ '' armor''\<rparr>]
          else [])"

definition shield_warnings :: "string \<Rightarrow> equipment \<Rightarrow> unusable_item list" where
  "shield_warnings char_class eq =
     (case shield eq of
        None \<Rightarrow> []
      | Some sh \<Rightarrow>
          if \<not> has_armor_proficiency (Some char_class) ''shields''
          then [\<lparr>item_name = name sh, item_type = ''shield'',
                 reason = ''Not proficient with shields''\<rparr>]
          else [])"

fun weapon_warnings :: "string \<Rightarrow> weapon_item list \<Rightarrow> unusable_item list" where
  "weapon_warnings char_class [] = []"
| "weapon_warnings char_class (weapon # rest) =
     (let weapon_category = category weapon
      in (if take 7 weapon_category = ''martial''
             \<and> \<not> has_weapon_proficiency (Some char_class) (Category weapon_category)
          then [\<lparr>item_name = name weapon, item_type = ''weapon'',
                 reason = ''Not proficient with martial weapons''\<rparr>]
          else []) @ weapon_warnings char_class rest)"

definition check_proficiencies :: "string \<Rightarrow> int \<Rightarrow> equipment \<Rightarrow> equipment" where
  "check_proficiencies char_class dex_mod eq =
     (let eq = eq\<lparr>armor_class := 10 + dex_mod\<rparr>;
          eq = eq\<lparr>unusable_items := []\<rparr>;
          eq = eq\<lparr>unusable_items := unusable_items eq @ armor_warnings char_class eq\<rparr>;
          eq = eq\<lparr>unusable_items := unusable_items eq @ shield_warnings char_class eq\<rparr>;
          eq = eq\<lparr>unusable_items := unusable_items eq @ weapon_warnings char_class (weapons eq)\<rparr>
      in eq)"

text \<open>\<open>"; ".join(...)\<close> of the warnings \<open>f"{item['item']}: {item['reason']}"\<close>.\<close>

fun join_warnings :: "unusable_item list \<Rightarrow> string" where
  "join_warnings [] = []"
| "join_warnings [u] = item_name u @ '': '' @ reason u"
| "join_warnings (u # v # rest) = item_name u @ '': '' @ reason u @ ''; '' @ join_warnings (v # rest)"

type_synonym equipment_outcome = "session \<times> response \<times> flash_message list"

text \<open>
  The form of a POST as the view prepares it: bound to the submitted data, with the
  budget and the class set. \<open>is_valid\<close> is the verdict of \<open>form.validate()\<close> on it when
  \<open>validate\<close> returns.
\<close>

definition prepared_form :: "equipment_formdata \<Rightarrow> string \<Rightarrow> int \<Rightarrow> EquipmentForm" where
  "prepared_form d char_class budget_gp =
     (let form = EquipmentForm_init d;
          form = form\<lparr>f_budget := budget_gp\<rparr>;
          form = form\<lparr>f_char_class := Some char_class\<rparr>
      in form)"

definition is_valid :: "EquipmentForm \<Rightarrow> string \<Rightarrow> bool" where
  "is_valid form action =
     (case EquipmentForm_validate form action of
        Inl e \<Rightarrow> False
      | Inr (v, form') \<Rightarrow> v)"

text \<open>The POST branch once the form is built, from the toggle requests to the end.\<close>

definition step5_post ::
  "equipment_request \<Rightarrow> session \<Rightarrow> string \<Rightarrow> int \<Rightarrow> int \<Rightarrow> py_error + equipment_outcome" where
  "step5_post req s char_class dex_mod budget_gp =
     (let form = prepared_form (er_formdata req) char_class budget_gp;
          eq0 = initial_equipment dex_mod
      in if er_action req = Some ''toggle_special'' \<or> er_action req = Some ''update_spells''
         then Inr (s, RenderEquipment
                        \<lparr>pg_starting_funds = budget_gp,
                         pg_remaining_coins = convert_gp_to_coins (of_int budget_gp),
                         pg_remaining_funds = 0, pg_preview = None,
                         pg_equipment = Some eq0\<rparr>, [])
         else
          bind_err (EquipmentForm_validate form
                      (case er_action req of None \<Rightarrow> [] | Some a \<Rightarrow> a)) (\<lambda>(is_valid, form).
            if is_valid
            then
              bind_err (calculate_total_cost form) (\<lambda>total_cost_gp.
              let remaining_gp = fsub (float_of_int budget_gp) total_cost_gp;
                  remaining_coins = convert_gp_to_coins remaining_gp;
                  s = s\<lparr>coins_left := Some remaining_coins\<rparr>
              in bind_err (selected_equipment form) (\<lambda>eq.
                 let eq = check_proficiencies char_class dex_mod eq
                 in if er_action req = Some ''preview''
                    then Inr (s, RenderEquipment
                                   \<lparr>pg_starting_funds = budget_gp,
                                    pg_remaining_coins = convert_gp_to_coins (f_remaining_funds form),
                                    pg_remaining_funds = f_remaining_funds form,
                                    pg_preview = Some True, pg_equipment = Some eq\<rparr>, [])
                    else if er_action req = Some ''purchase''
                    then
                      (if f_remaining_funds form \<ge> 0
                       then
                         bind_err (calculate_total_cost form) (\<lambda>total_cost.
                           let remaining_gp = fsub (float_of_int budget_gp) total_cost;
                               remaining_coins = convert_gp_to_coins remaining_gp;
                               s = s\<lparr>equipment := Some eq\<rparr>;
                               s = s\<lparr>coins_left := Some remaining_coins\<rparr>
                           in Inr (s, Redirect ''characters.character_name'',
                                   (if unusable_items eq \<noteq> []
                                    then [Message
                                      (''Warning: You purchased items you aren't proficient with: ''
                                       @ join_warnings (unusable_items eq))]
                                    else [])))
                       else Inr (s, RenderEquipment
                                      \<lparr>pg_starting_funds = budget_gp,
                                       pg_remaining_coins =
                                         convert_gp_to_coins (f_remaining_funds form),
                                       pg_remaining_funds = f_remaining_funds form,
                                       pg_preview = None, pg_equipment = Some eq\<rparr>,
                                 [Message ''You don't have enough funds for this purchase.'']))
                    else Inr (s, RenderEquipment
                                   \<lparr>pg_starting_funds = budget_gp,
                                    pg_remaining_coins = convert_gp_to_coins (of_int budget_gp),
                                    pg_remaining_funds = of_int budget_gp,
                                    pg_preview = Some False, pg_equipment = None\<rparr>, [])))
            else Inr (s, RenderEquipment
                           \<lparr>pg_starting_funds = budget_gp,
                            pg_remaining_coins = convert_gp_to_coins (f_remaining_funds form),
                            pg_remaining_funds = f_remaining_funds form,
                            pg_preview = None, pg_equipment = Some eq0\<rparr>,
                      f_validation_errors form)))"

definition step5_equipment :: "equipment_request \<Rightarrow> session \<Rightarrow> py_error + equipment_outcome" where
  "step5_equipment req s =
     (case sess_class s of
        None \<Rightarrow> Inr (s, Redirect ''characters.step3_class'', [])
      | Some char_class \<Rightarrow>
          if char_class = [] then Inr (s, Redirect ''characters.step3_class'', [])
          else
           bind_err (step5_enter req s char_class) (\<lambda>(s, dex_mod, budget_gp).
             if er_method req = POST
             then step5_post req s char_class dex_mod budget_gp
             else Inr (s, RenderEquipment
                            \<lparr>pg_starting_funds = budget_gp,
                             pg_remaining_coins = convert_gp_to_coins (of_int budget_gp),
                             pg_remaining_funds = of_int budget_gp,
                             pg_preview = Some False, pg_equipment = None\<rparr>, [])))"

section \<open>Example sessions and requests\<close>

text \<open>
  Data for the evaluated instances of the equipment step: a Wizard and a Cleric as a
  GET of the step leaves them, a Wizard coming from the class step, and submitted forms.
\<close>

definition wizard_session :: session where
  "wizard_session =
     empty_session\<lparr>sess_class := Some ''Wizard'',
       coins_left := Some [(''pp'', 0), (''gp'', 55), (''sp'', 0), (''cp'', 0)],
       previous_class := Some ''Wizard''\<rparr>"

definition cleric_session :: session where
  "cleric_session =
     empty_session\<lparr>sess_class := Some ''Cleric'',
       coins_left := Some [(''pp'', 0), (''gp'', 110), (''sp'', 0), (''cp'', 0)],
       previous_class := Some ''Cleric''\<rparr>"

definition new_wizard_session :: session where
  "new_wizard_session = empty_session\<lparr>sess_class := Some ''Wizard''\<rparr>"


definition dagger_form :: equipment_formdata where
  "dagger_form = no_formdata\<lparr>fields_ok := True, fd_simple_melee := [''simple_melee:Dagger'']\<rparr>"

definition crystal_form :: equipment_formdata where
  "crystal_form =
     no_formdata\<lparr>fields_ok := True, has_arcane_focus := True,
       arcane_focus_selection := Some ''crystal''\<rparr>"

definition magnifying_glass_form :: equipment_formdata where
  "magnifying_glass_form =
     no_formdata\<lparr>fields_ok := True, fd_adventuring_gear := [''magnifying_glass'']\<rparr>"

definition club_form :: equipment_formdata where
  "club_form = no_formdata\<lparr>fields_ok := True, fd_simple_melee := [''simple_melee:Club'']\<rparr>"

text \<open>A selection whose prices add up to 55 gp exactly: 53 gp, 19 sp and 10 cp.\<close>

definition exact_budget_form :: equipment_formdata where
  "exact_budget_form =
     no_formdata\<lparr>fields_ok := True,
       fd_simple_melee := [''simple_melee:Spear''],
       fd_simple_ranged := [''simple_ranged:Dart'', ''simple_ranged:Shortbow''],
       fd_adventuring_gear :=
         [''backpack'', ''ball_bearings'', ''barrel'', ''blanket'', ''burglars_pack'',
          ''caltrops'', ''candle'', ''chest'', ''flask'', ''jug'', ''ladder'', ''oil'',
          ''paper'', ''pouch'', ''tinderbox'']\<rparr>"

definition mace_form :: equipment_formdata where
  "mace_form = no_formdata\<lparr>fields_ok := True, fd_simple_melee := [''simple_melee:Mace'']\<rparr>"

definition leather_form :: equipment_formdata where
  "leather_form = no_formdata\<lparr>fields_ok := True, fd_armor := Some ''light:Leather''\<rparr>"

definition shield_longsword_form :: equipment_formdata where
  "shield_longsword_form =
     no_formdata\<lparr>fields_ok := True, fd_shield := Some ''shield:Shield'',
       fd_martial_melee := [''martial_melee:Longsword'']\<rparr>"

section \<open>Properties\<close>

subsection \<open>Armor class: the unarmored branch and the shield\<close>

text \<open>
  C8. The claim asks for the shield's \<open>ac_bonus\<close> on top of the armored and of the
  unarmored result. With no armor, the catalog's shield and dexterity modifier 1,
  \<open>calculate_ac\<close> returns 10 + 1 = 11: the unarmored branch returns before the shield
  bonus is added, where the claim gives 10 + 1 + 2 = 13.
\<close>

theorem calculate_ac_unarmored_shield_ignored:
  "calculate_ac None (Some \<lparr>name = ''Shield'', cost = [(''gp'', 10)], ac_bonus = 2\<rparr>) 1 = 11"
  by (simp add: calculate_ac_def)

subsection \<open>Currency conversion\<close>

lemma cp_to_coins_eq:
  "cp_to_coins t = Inr [(''pp'', t div 500), (''gp'', t mod 500 div 100),
     (''sp'', t mod 500 mod 100 div 10), (''cp'', t mod 500 mod 100 mod 10)]"
  by (simp add: cp_to_coins_def COIN_VALUES_def)

lemma get_cost_in_cp_eq:
  "get_cost_in_cp c = dict_get c ''pp'' 0 * 1000 + dict_get c ''gp'' 0 * 100
     + dict_get c ''sp'' 0 * 10 + dict_get c ''cp'' 0"
  by (simp add: get_cost_in_cp_def)

lemma split_digit:
  fixes q r b :: int
  assumes "0 \<le> r" "r < b"
  shows "(q * b + r) div b = q" and "(q * b + r) mod b = r"
  using assms by simp_all

lemma normal_digits:
  fixes p g s k :: int
  assumes "0 \<le> g" "g < 10" "0 \<le> s" "s < 10" "0 \<le> k" "k < 10"
  shows "(p * 1000 + g * 100 + s * 10 + k) div 1000 = p"
    and "(p * 1000 + g * 100 + s * 10 + k) mod 1000 = g * 100 + s * 10 + k"
    and "(g * 100 + s * 10 + k) div 100 = g"
    and "(g * 100 + s * 10 + k) mod 100 = s * 10 + k"
    and "(s * 10 + k) div 10 = s"
    and "(s * 10 + k) mod 10 = k"
proof -
  have a: "0 \<le> s * 10 + k" "s * 10 + k < 100" using assms by linarith+
  have b: "0 \<le> g * 100 + (s * 10 + k)" "g * 100 + (s * 10 + k) < 1000"
    using assms by linarith+
  show "(p * 1000 + g * 100 + s * 10 + k) div 1000 = p"
    using split_digit(1) [OF b, of p] by (simp add: add.assoc)
  show "(p * 1000 + g * 100 + s * 10 + k) mod 1000 = g * 100 + s * 10 + k"
    using split_digit(2) [OF b, of p] by (simp add: add.assoc)
  show "(g * 100 + s * 10 + k) div 100 = g"
    using split_digit(1) [OF a, of g] by (simp add: add.assoc)
  show "(g * 100 + s * 10 + k) mod 100 = s * 10 + k"
    using split_digit(2) [OF a, of g] by (simp add: add.assoc)
  show "(s * 10 + k) div 10 = s"
    using split_digit(1) [OF assms(5,6), of s] by simp
  show "(s * 10 + k) mod 10 = k"
    using split_digit(2) [OF assms(5,6), of s] by simp
qed

text \<open>
  C3, as amended. Copper total to coin breakdown and back is the identity for every
  integer total \<open>t\<close> (so for every non-negative one), for both pairs of converters:
  \<open>coins_to_cp (cp_to_coins t) = t\<close> and \<open>get_cost_in_cp (convert_to_coins t) = t\<close>.
  Coin breakdown to copper total and back is the identity of dicts for a breakdown
  \<open>c\<close> with the four denominations whose gold, silver and copper counts are digits
  (0 to 9), for \<open>convert_to_coins (get_cost_in_cp c)\<close>.
\<close>

theorem currency_roundtrip:
  assumes "map_of c = map_of [(''pp'', p), (''gp'', g), (''sp'', s), (''cp'', k)]"
    and "0 \<le> g \<and> g < 10" and "0 \<le> s \<and> s < 10" and "0 \<le> k \<and> k < 10"
  shows "(case cp_to_coins t of Inl e \<Rightarrow> False | Inr c' \<Rightarrow> coins_to_cp c' = Inr t)
       \<and> get_cost_in_cp (convert_to_coins t) = t
       \<and> map_of (convert_to_coins (get_cost_in_cp c)) = map_of c"
proof (intro conjI)
  show "case cp_to_coins t of Inl e \<Rightarrow> False | Inr c' \<Rightarrow> coins_to_cp c' = Inr t"
    by (simp add: cp_to_coins_eq COIN_VALUES_def)
  show "get_cost_in_cp (convert_to_coins t) = t"
    by (simp add: get_cost_in_cp_eq convert_to_coins_def dict_get_def Let_def)
  have "get_cost_in_cp c = p * 1000 + g * 100 + s * 10 + k"
    by (simp add: get_cost_in_cp_eq dict_get_def assms(1))
  then have "convert_to_coins (get_cost_in_cp c) = [(''pp'', p), (''gp'', g), (''sp'', s), (''cp'', k)]"
    using assms(2-4) by (simp add: convert_to_coins_def Let_def normal_digits)
  then show "map_of (convert_to_coins (get_cost_in_cp c)) = map_of c"
    by (simp only: assms(1))
qed

theorem currency_roundtrip_witness:
  "map_of [(''gp'', 5), (''pp'', 5), (''sp'', 0), (''cp'', 0)]
     = map_of [(''pp'', 5), (''gp'', 5), (''sp'', 0), (''cp'', (0::int))]
   \<and> (case cp_to_coins 5500 of Inl e \<Rightarrow> False | Inr c' \<Rightarrow> coins_to_cp c' = Inr 5500)
   \<and> get_cost_in_cp (convert_to_coins 5500) = 5500
   \<and> map_of (convert_to_coins (get_cost_in_cp [(''gp'', 5), (''pp'', 5), (''sp'', 0), (''cp'', 0)]))
       = map_of [(''gp'', 5), (''pp'', 5), (''sp'', 0), (''cp'', 0)]"
proof -
  have h: "map_of [(''gp'', 5), (''pp'', 5), (''sp'', 0), (''cp'', 0)]
     = map_of [(''pp'', 5), (''gp'', 5), (''sp'', 0), (''cp'', (0::int))]"
    by (rule ext) simp
  show ?thesis
    using h currency_roundtrip [OF h, of 5500] by simp
qed

text \<open>
  C3 as stated fails for a breakdown that is not in normal form: the breakdown
  \<open>{"pp": 0, "gp": 55, "sp": 0, "cp": 0}\<close>, which the equipment step stores for a Wizard,
  comes back from either pair of converters with the gold changed into platinum.
\<close>

theorem currency_roundtrip_counterexample:
  "coins_to_cp [(''pp'', 0), (''gp'', 55), (''sp'', 0), (''cp'', 0)] = Inr 5500
   \<and> cp_to_coins 5500 = Inr [(''pp'', 11), (''gp'', 0), (''sp'', 0), (''cp'', 0)]
   \<and> map_of [(''pp'', 11), (''gp'', 0), (''sp'', 0), (''cp'', 0)] ''gp''
        \<noteq> map_of [(''pp'', 0), (''gp'', 55), (''sp'', 0), (''cp'', (0::int))] ''gp''
   \<and> convert_to_coins (get_cost_in_cp [(''pp'', 0), (''gp'', 55), (''sp'', 0), (''cp'', 0)])
        = [(''pp'', 5), (''gp'', 5), (''sp'', 0), (''cp'', 0)]
   \<and> map_of [(''pp'', 5), (''gp'', 5), (''sp'', 0), (''cp'', 0)] ''gp''
        \<noteq> map_of [(''pp'', 0), (''gp'', 55), (''sp'', 0), (''cp'', (0::int))] ''gp''"
  by (simp add: cp_to_coins_def COIN_VALUES_def get_cost_in_cp_def convert_to_coins_def dict_get_def)

text \<open>
  C2. The claim fixes 1 platinum = 1000 copper for every helper. \<open>coins_to_cp\<close> values
  one platinum piece at 500 copper (\<open>COIN_VALUES["pp"]\<close>), where \<open>get_cost_in_cp\<close> gives
  1000 copper and \<open>_convert_to_gp\<close> gives 10 gold.
\<close>

theorem coins_to_cp_platinum_rate:
  "coins_to_cp [(''pp'', 1)] = Inr 500
   \<and> get_cost_in_cp [(''pp'', 1)] = 1000
   \<and> convert_to_gp [(''pp'', 1)] * 100 = 1000"
  by code_simp

subsection \<open>Ability score rolls\<close>

lemma reroll_Some:
  assumes "reroll roll dice = Some (roll', dice')"
  shows "2 < roll' \<and> (\<exists>skipped. roll # dice = skipped @ roll' # dice' \<and> (\<forall>r\<in>set skipped. r \<le> 2))"
  using assms
proof (induction roll dice rule: reroll.induct)
  case (1 roll)
  then have "\<not> roll \<le> 2" and "roll' = roll" and "dice' = []" by (auto split: if_splits)
  then show ?case by auto
next
  case (2 roll r rest)
  show ?case
  proof (cases "roll \<le> 2")
    case True
    with 2 obtain skipped where "2 < roll'" and "r # rest = skipped @ roll' # dice'"
      and "\<forall>x\<in>set skipped. x \<le> 2" by auto
    then have "2 < roll'" and "roll # r # rest = (roll # skipped) @ roll' # dice'"
      and "\<forall>x\<in>set (roll # skipped). x \<le> 2" using True by auto
    then show ?thesis by blast
  next
    case False
    with 2 have "roll' = roll" and "dice' = r # rest" by auto
    with False show ?thesis by auto
  qed
qed

lemma filter_skipped:
  fixes skipped :: "int list"
  shows "\<forall>r\<in>set skipped. r \<le> 2 \<Longrightarrow>
     filter (\<lambda>r. 2 < r) (skipped @ xs) = filter (\<lambda>r. 2 < r) xs"
  by (induction skipped) auto

lemma roll_dice_Some:
  "roll_dice n rolls dice = Some (rolls', dice') \<Longrightarrow>
     rolls' = rolls @ take n (filter (\<lambda>r. 2 < r) dice)
     \<and> n \<le> length (filter (\<lambda>r. 2 < r) dice)
     \<and> (\<exists>used. dice = used @ dice'
           \<and> filter (\<lambda>r. 2 < r) used = take n (filter (\<lambda>r. 2 < r) dice))"
proof (induction n arbitrary: rolls dice)
  case 0
  then show ?case by simp
next
  case (Suc n)
  from Suc.prems obtain roll d1 roll' d2 where
    r: "randint dice = Some (roll, d1)" and rr: "reroll roll d1 = Some (roll', d2)"
    and rec: "roll_dice n (rolls @ [roll']) d2 = Some (rolls', dice')"
    by (auto split: option.splits prod.splits)
  from r have d: "dice = roll # d1" by (auto simp: randint_def split: list.splits)
  from reroll_Some [OF rr] obtain skipped where k: "2 < roll'"
    and sk: "dice = skipped @ roll' # d2" "\<forall>r\<in>set skipped. r \<le> 2"
    unfolding d by blast
  have f: "filter (\<lambda>r. 2 < r) dice = roll' # filter (\<lambda>r. 2 < r) d2"
    unfolding sk(1) using filter_skipped [OF sk(2)] k by simp
  from Suc.IH [OF rec] obtain used where
    n: "rolls' = (rolls @ [roll']) @ take n (filter (\<lambda>r. 2 < r) d2)"
       "n \<le> length (filter (\<lambda>r. 2 < r) d2)"
       "d2 = used @ dice'" "filter (\<lambda>r. 2 < r) used = take n (filter (\<lambda>r. 2 < r) d2)"
    by blast
  have u: "dice = (skipped @ roll' # used) @ dice'" using sk(1) n(3) by simp
  have fu: "filter (\<lambda>r. 2 < r) (skipped @ roll' # used)
      = take (Suc n) (filter (\<lambda>r. 2 < r) dice)"
    using filter_skipped [OF sk(2)] k n(4) f by simp
  show ?case
  proof (intro conjI)
    show "rolls' = rolls @ take (Suc n) (filter (\<lambda>r. 2 < r) dice)" using n(1) f by simp
    show "Suc n \<le> length (filter (\<lambda>r. 2 < r) dice)" using n(2) f by simp
    show "\<exists>used. dice = used @ dice'
           \<and> filter (\<lambda>r. 2 < r) used = take (Suc n) (filter (\<lambda>r. 2 < r) dice)"
      using u fu by blast
  qed
qed

lemma sum_list_bounds:
  fixes xs :: "int list"
  assumes "\<forall>x\<in>set xs. lo \<le> x \<and> x \<le> hi"
  shows "lo * int (length xs) \<le> sum_list xs \<and> sum_list xs \<le> hi * int (length xs)"
  using assms by (induction xs) (auto simp: algebra_simps)

lemma drop1_sort:
  fixes xs :: "int list"
  assumes "xs \<noteq> []"
  shows "sum_list (drop 1 (sort xs)) = sum_list xs - Min (set xs)"
proof -
  from assms obtain y ys where s: "sort xs = y # ys"
    by (cases "sort xs") (auto dest: arg_cong [where f = length])
  have "sorted (y # ys)" using sorted_sort [where xs = xs] s by simp
  then have "\<forall>z\<in>set (y # ys). y \<le> z" by auto
  moreover have "set (y # ys) = set xs" using s by (metis set_sort)
  ultimately have "Min (set xs) = y"
    by (metis List.finite_set Min_eqI list.set_intros(1))
  moreover have "sum_list (sort xs) = sum_list xs"
    by (metis mset_sort sum_mset_sum_list)
  ultimately show ?thesis using s by simp
qed

lemma reroll_returns:
  "0 < length (filter (\<lambda>r. 2 < r) (roll # dice)) \<Longrightarrow>
     \<exists>roll' dice'. reroll roll dice = Some (roll', dice')
       \<and> Suc (length (filter (\<lambda>r. 2 < r) dice')) = length (filter (\<lambda>r. 2 < r) (roll # dice))"
  by (induction roll dice rule: reroll.induct) (auto split: if_splits)

lemma roll_dice_returns:
  "n \<le> length (filter (\<lambda>r. 2 < r) dice) \<Longrightarrow> roll_dice n rolls dice \<noteq> None"
proof (induction n arbitrary: rolls dice)
  case 0
  then show ?case by simp
next
  case (Suc n)
  then obtain r d1 where d: "dice = r # d1" by (cases dice) auto
  have p: "Suc n \<le> length (filter (\<lambda>r. 2 < r) (r # d1))" using Suc.prems unfolding d .
  then have "0 < length (filter (\<lambda>r. 2 < r) (r # d1))" by linarith
  from reroll_returns [OF this] obtain roll' d2 where
    rr: "reroll r d1 = Some (roll', d2)"
    and len: "Suc (length (filter (\<lambda>r. 2 < r) d2)) = length (filter (\<lambda>r. 2 < r) (r # d1))"
    by blast
  have "n \<le> length (filter (\<lambda>r. 2 < r) d2)" using len p by linarith
  from Suc.IH [OF this] have "roll_dice n (rolls @ [roll']) d2 \<noteq> None" .
  then show ?case using d rr by (simp add: randint_def)
qed

text \<open>
  C9. For every sequence of dice with values 1 to 6, \<open>roll_stat\<close> returns a score exactly
  when the sequence holds four dice showing 3 or more. The score is then made of the
  first four such dice of the sequence, the kept dice: the dice showing 1 or 2 that come
  before them are the re-rolled ones, and the dice after the fourth kept die are left
  unread. Each kept die is in \<open>{3, 4, 5, 6}\<close>, the score is the sum of the four minus the
  lowest of them (the sum of the three highest), and it lies in the range 9 to 18.
\<close>

theorem roll_stat_score:
  assumes "\<forall>r\<in>set dice. 1 \<le> r \<and> r \<le> 6"
  shows "(roll_stat dice \<noteq> None \<longleftrightarrow> 4 \<le> length (filter (\<lambda>r. 2 < r) dice))
    \<and> (\<forall>score rest. roll_stat dice = Some (score, rest) \<longrightarrow>
          length (take 4 (filter (\<lambda>r. 2 < r) dice)) = 4
        \<and> set (take 4 (filter (\<lambda>r. 2 < r) dice)) \<subseteq> {3, 4, 5, 6}
        \<and> score = sum_list (take 4 (filter (\<lambda>r. 2 < r) dice))
                    - Min (set (take 4 (filter (\<lambda>r. 2 < r) dice)))
        \<and> (\<exists>used. dice = used @ rest
              \<and> filter (\<lambda>r. 2 < r) used = take 4 (filter (\<lambda>r. 2 < r) dice))
        \<and> 9 \<le> score \<and> score \<le> 18)"
proof (intro conjI impI allI iffI)
  assume "4 \<le> length (filter (\<lambda>r. 2 < r) dice)"
  from roll_dice_returns [OF this, of "[]"] show "roll_stat dice \<noteq> None"
    by (auto simp: roll_stat_def split: option.splits)
next
  assume "roll_stat dice \<noteq> None"
  then obtain rolls rest where "roll_dice 4 [] dice = Some (rolls, rest)"
    by (auto simp: roll_stat_def split: option.splits)
  from roll_dice_Some [OF this] show "4 \<le> length (filter (\<lambda>r. 2 < r) dice)" by simp
next
  fix score rest
  assume rs: "roll_stat dice = Some (score, rest)"
  let ?kept = "take 4 (filter (\<lambda>r. 2 < r) dice)"
  from rs obtain rolls where rd: "roll_dice 4 [] dice = Some (rolls, rest)"
    and sc: "score = sum_list (drop 1 (sort rolls))"
    by (auto simp: roll_stat_def split: option.splits)
  from roll_dice_Some [OF rd] have rolls: "rolls = ?kept"
    and four: "4 \<le> length (filter (\<lambda>r. 2 < r) dice)"
    and used: "\<exists>used. dice = used @ rest \<and> filter (\<lambda>r. 2 < r) used = ?kept"
    by simp_all
  show len: "length ?kept = 4" using four by simp
  have "set ?kept \<subseteq> set (filter (\<lambda>r. 2 < r) dice)" by (rule set_take_subset)
  then have rng: "\<forall>r\<in>set ?kept. 3 \<le> r \<and> r \<le> 6" using assms by force
  then show "set ?kept \<subseteq> {3, 4, 5, 6}" by auto
  have ne: "?kept \<noteq> []" using len by auto
  show "score = sum_list ?kept - Min (set ?kept)"
    using sc drop1_sort [OF ne] rolls by simp
  show "\<exists>used. dice = used @ rest \<and> filter (\<lambda>r. 2 < r) used = ?kept" by (rule used)
  have "\<forall>r\<in>set (drop 1 (sort ?kept)). 3 \<le> r \<and> r \<le> 6"
    using rng by (metis in_set_dropD set_sort)
  from sum_list_bounds [OF this] have
    "3 * int (length (drop 1 (sort ?kept))) \<le> score"
    "score \<le> 6 * int (length (drop 1 (sort ?kept)))" using sc rolls by auto
  moreover have "length (drop 1 (sort ?kept)) = 3" using len by simp
  ultimately show "9 \<le> score" and "score \<le> 18" by simp_all
qed

theorem roll_stat_score_witness:
  "set [1, 2, 3, 6, 2, 5, 1, 1, 4, 6::int] \<subseteq> {1..6}
   \<and> 4 \<le> length (filter (\<lambda>r. 2 < r) [1, 2, 3, 6, 2, 5, 1, 1, 4, 6::int])
   \<and> roll_stat [1, 2, 3, 6, 2, 5, 1, 1, 4, 6] = Some (15, [6])
   \<and> take 4 (filter (\<lambda>r. 2 < r) [1, 2, 3, 6, 2, 5, 1, 1, 4, 6::int]) = [3, 6, 5, 4]
   \<and> (15::int) = sum_list [3, 6, 5, 4] - Min (set [3, 6, 5, 4])
   \<and> (9::int) \<le> 15 \<and> (15::int) \<le> 18"
proof -
  have h: "\<forall>r\<in>set [1, 2, 3, 6, 2, 5, 1, 1, 4, 6::int]. 1 \<le> r \<and> r \<le> 6" by simp
  have v: "roll_stat [1, 2, 3, 6, 2, 5, 1, 1, 4, 6] = Some (15, [6])"
    by code_simp
  have k: "take 4 (filter (\<lambda>r. 2 < r) [1, 2, 3, 6, 2, 5, 1, 1, 4, 6::int]) = [3, 6, 5, 4]"
    by simp
  note t = roll_stat_score [OF h, THEN conjunct2, rule_format, OF v]
  have m: "(15::int) = sum_list [3, 6, 5, 4] - Min (set [3, 6, 5, 4])"
    using t [THEN conjunct2, THEN conjunct2, THEN conjunct1] unfolding k .
  have s: "set [1, 2, 3, 6, 2, 5, 1, 1, 4, 6::int] \<subseteq> {1..6}" by simp
  have f: "4 \<le> length (filter (\<lambda>r. 2 < r) [1, 2, 3, 6, 2, 5, 1, 1, 4, 6::int])" by simp
  have b: "(9::int) \<le> 15" "(15::int) \<le> 18" by simp_all
  show ?thesis by (intro conjI s f v k m b)
qed

subsection \<open>Skill selection\<close>









subsection \<open>Choosing a class\<close>

lemma step3_class_chosen:
  assumes "cr_method req = POST" and "cr_csrf_ok req" and "cr_class_choice req = Some chosen"
    and "chosen \<in> set [''Fighter'', ''Wizard'', ''Rogue'', ''Cleric'']"
    and "case cr_primary_ability req of None \<Rightarrow> True | Some a \<Rightarrow> a \<in> set [''strength'', ''dexterity'']"
    and "map_of CLASS_HIT_DIE chosen = Some hit_die"
  shows "\<exists>s' resp msgs. step3_class req s = Inr (s', resp, msgs)
      \<and> sess_class s' = Some chosen
      \<and> equipment s' = None \<and> coins_left s' = None \<and> skill_proficiencies s' = None
      \<and> fighting_style s' = None \<and> cantrips s' = None \<and> level1_spells s' = None
      \<and> expertise s' = (if chosen = ''Rogue'' then expertise s else Some [])
      \<and> max_hp s' = Some (hit_die + (case constitution_modifier s of None \<Rightarrow> 0 | Some c \<Rightarrow> c))
      \<and> current_hp s' = max_hp s'"
  using assms
  by (simp add: step3_class_def ClassForm_validate_on_submit_def Let_def)

text \<open>
  C5, as amended. Choosing a class (a valid submission of the class form, for any of
  Fighter, Wizard, Rogue, Cleric) stores the class, removes the stored equipment,
  remaining funds, skill proficiencies, fighting style, cantrips and first-level spells,
  sets max HP to hit die + constitution modifier (0 when none is stored) with no floor,
  and sets current HP to max HP. The stored expertise is reset to the empty list when
  the class is not Rogue, and is kept as it was when the class is Rogue.
\<close>

theorem step3_class_clears:
  assumes "ClassForm_validate_on_submit [''Fighter'', ''Wizard'', ''Rogue'', ''Cleric''] req"
  shows "\<exists>chosen hit_die s' resp msgs.
      cr_class_choice req = Some chosen \<and> map_of CLASS_HIT_DIE chosen = Some hit_die
      \<and> step3_class req s = Inr (s', resp, msgs)
      \<and> sess_class s' = Some chosen
      \<and> equipment s' = None \<and> coins_left s' = None \<and> skill_proficiencies s' = None
      \<and> fighting_style s' = None \<and> cantrips s' = None \<and> level1_spells s' = None
      \<and> expertise s' = (if chosen = ''Rogue'' then expertise s else Some [])
      \<and> max_hp s' = Some (hit_die + (case constitution_modifier s of None \<Rightarrow> 0 | Some c \<Rightarrow> c))
      \<and> current_hp s' = max_hp s'"
proof -
  from assms obtain chosen where c: "cr_class_choice req = Some chosen"
    and m: "chosen \<in> set [''Fighter'', ''Wizard'', ''Rogue'', ''Cleric'']"
    and p: "cr_method req = POST" "cr_csrf_ok req"
      "case cr_primary_ability req of None \<Rightarrow> True | Some a \<Rightarrow> a \<in> set [''strength'', ''dexterity'']"
    by (auto simp: ClassForm_validate_on_submit_def split: option.splits)
  from m obtain hit_die where h: "map_of CLASS_HIT_DIE chosen = Some hit_die"
    by (auto simp: CLASS_HIT_DIE_def)
  from step3_class_chosen [OF p(1,2) c m p(3) h, of s] c h show ?thesis by blast
qed

theorem step3_class_clears_witness:
  "ClassForm_validate_on_submit [''Fighter'', ''Wizard'', ''Rogue'', ''Cleric'']
     \<lparr>cr_method = POST, cr_csrf_ok = True, cr_class_choice = Some ''Wizard'',
      cr_primary_ability = None\<rparr>
   \<and> step3_class
       \<lparr>cr_method = POST, cr_csrf_ok = True, cr_class_choice = Some ''Wizard'',
        cr_primary_ability = None\<rparr>
       (empty_session\<lparr>constitution_modifier := Some (- 1), sess_class := Some ''Fighter'',
          fighting_style := Some ''Dueling'', expertise := Some [''Stealth''],
          skill_proficiencies := Some [''Athletics''], coins_left := Some [(''gp'', 100)]\<rparr>)
     = Inr (empty_session\<lparr>constitution_modifier := Some (- 1), sess_class := Some ''Wizard'',
              primary_ability := Some ''Intelligence'', max_hp := Some 5, current_hp := Some 5,
              expertise := Some []\<rparr>,
            Redirect ''characters.step4_skills'', [])"
  using step3_class_clears [of
      "\<lparr>cr_method = POST, cr_csrf_ok = True, cr_class_choice = Some ''Wizard'',
        cr_primary_ability = None\<rparr>"
      "empty_session\<lparr>constitution_modifier := Some (- 1), sess_class := Some ''Fighter'',
          fighting_style := Some ''Dueling'', expertise := Some [''Stealth''],
          skill_proficiencies := Some [''Athletics''], coins_left := Some [(''gp'', 100)]\<rparr>"]
  by (simp add: ClassForm_validate_on_submit_def step3_class_def CLASS_HIT_DIE_def
      empty_session_def)

text \<open>
  C5 as stated fails when the chosen class is Rogue: an expertise selection stored
  before is still there after the class is chosen.
\<close>

theorem step3_class_clears_counterexample:
  "step3_class
     \<lparr>cr_method = POST, cr_csrf_ok = True, cr_class_choice = Some ''Rogue'',
      cr_primary_ability = None\<rparr>
     (empty_session\<lparr>expertise := Some [''Stealth'', ''Acrobatics'']\<rparr>)
   = Inr (empty_session\<lparr>sess_class := Some ''Rogue'', primary_ability := Some ''Dexterity'',
            max_hp := Some 8, current_hp := Some 8,
            expertise := Some [''Stealth'', ''Acrobatics'']\<rparr>,
          Redirect ''characters.step4_skills'', [])
   \<and> expertise (empty_session\<lparr>sess_class := Some ''Rogue'', primary_ability := Some ''Dexterity'',
            max_hp := Some 8, current_hp := Some 8,
            expertise := Some [''Stealth'', ''Acrobatics'']\<rparr>) = Some [''Stealth'', ''Acrobatics'']"
  by (simp add: ClassForm_validate_on_submit_def step3_class_def CLASS_HIT_DIE_def
      empty_session_def)

subsection \<open>Choosing spells\<close>

text \<open>
  C6, as amended. For a Wizard or a Cleric, a POST to the spell step succeeds (stores
  the parsed cantrips and first-level spells and goes on to the equipment step) exactly
  when it holds 3 cantrip identifiers and 6 first-level spell identifiers, for both
  classes and whatever the identifiers are. A wrong number of cantrips fails with the
  cantrip message; 3 cantrips with a wrong number of first-level spells fails with the
  message of the class about first-level spells; a failure leaves the session as it was.
\<close>

theorem spell_selection_counts:
  assumes "sess_class s = Some c" and "c = ''Wizard'' \<or> c = ''Cleric''"
    and "sr_method req = POST"
  shows "(length (sr_cantrips req) = 3 \<and> length (sr_level1_spells req) = 6 \<longrightarrow>
           (\<exists>s'. spell_selection req s = (s', Redirect ''characters.step5_equipment'', [])
              \<and> cantrips s' = Some (map parse_spell_data (sr_cantrips req))
              \<and> level1_spells s' = Some (map parse_spell_data (sr_level1_spells req))))
       \<and> (length (sr_cantrips req) \<noteq> 3 \<longrightarrow>
           spell_selection req s
             = (s, Redirect ''characters.spell_selection'', [''Select exactly 3 cantrips.'']))
       \<and> (length (sr_cantrips req) = 3 \<and> length (sr_level1_spells req) \<noteq> 6 \<longrightarrow>
           spell_selection req s
             = (s, Redirect ''characters.spell_selection'',
                [if c = ''Wizard''
                 then ''Select exactly 3 cantrips and 6 first-level spells for your spellbook.''
                 else ''Select exactly 3 cantrips and 6 first-level spells to prepare.'']))"
  using assms by (auto simp: spell_selection_def Let_def)

theorem spell_selection_counts_witness:
  "sess_class (empty_session\<lparr>sess_class := Some ''Cleric''\<rparr>) = Some ''Cleric''
   \<and> spell_selection
        \<lparr>sr_method = POST, sr_cantrips = [''guidance'', ''light''],
         sr_level1_spells = [''bane'', ''bless'', ''command'', ''cure_wounds'', ''sanctuary'',
                             ''guiding_bolt'']\<rparr>
        (empty_session\<lparr>sess_class := Some ''Cleric''\<rparr>)
      = (empty_session\<lparr>sess_class := Some ''Cleric''\<rparr>,
         Redirect ''characters.spell_selection'', [''Select exactly 3 cantrips.''])
   \<and> spell_selection
        \<lparr>sr_method = POST, sr_cantrips = [''guidance'', ''light'', ''mending''],
         sr_level1_spells = [''bane'', ''bless'']\<rparr>
        (empty_session\<lparr>sess_class := Some ''Cleric''\<rparr>)
      = (empty_session\<lparr>sess_class := Some ''Cleric''\<rparr>,
         Redirect ''characters.spell_selection'',
         [''Select exactly 3 cantrips and 6 first-level spells to prepare.''])
   \<and> (\<exists>s'. spell_selection
        \<lparr>sr_method = POST, sr_cantrips = [''guidance'', ''light'', ''mending''],
         sr_level1_spells = [''bane'', ''bless'', ''command'', ''cure_wounds'', ''sanctuary'',
                             ''guiding_bolt'']\<rparr>
        (empty_session\<lparr>sess_class := Some ''Cleric''\<rparr>)
      = (s', Redirect ''characters.step5_equipment'', [])
      \<and> cantrips s' = Some [''guidance'', ''light'', ''mending''])"
proof -
  have h: "sess_class (empty_session\<lparr>sess_class := Some ''Cleric''\<rparr>) = Some ''Cleric''"
    by simp
  have p: "parse_spell_data ''guidance'' = ''guidance''" "parse_spell_data ''light'' = ''light''"
    "parse_spell_data ''mending'' = ''mending''"
    by (simp_all add: parse_spell_data_def)
  show ?thesis
    using h
      spell_selection_counts [OF h, of
        "\<lparr>sr_method = POST, sr_cantrips = [''guidance'', ''light''],
         sr_level1_spells = [''bane'', ''bless'', ''command'', ''cure_wounds'', ''sanctuary'',
                             ''guiding_bolt'']\<rparr>"]
      spell_selection_counts [OF h, of
        "\<lparr>sr_method = POST, sr_cantrips = [''guidance'', ''light'', ''mending''],
         sr_level1_spells = [''bane'', ''bless'']\<rparr>"]
      spell_selection_counts [OF h, of
        "\<lparr>sr_method = POST, sr_cantrips = [''guidance'', ''light'', ''mending''],
         sr_level1_spells = [''bane'', ''bless'', ''command'', ''cure_wounds'', ''sanctuary'',
                             ''guiding_bolt'']\<rparr>"]
    by (auto simp: p)
qed

text \<open>
  C6 as stated fails: identifiers that are on no spell list of the class are accepted
  when their numbers are 3 and 6.
\<close>

theorem spell_selection_counts_counterexample:
  "spell_selection
     \<lparr>sr_method = POST, sr_cantrips = [''x'', ''y'', ''z''],
      sr_level1_spells = [''q'', ''q'', ''q'', ''q'', ''q'', ''q'']\<rparr>
     (empty_session\<lparr>sess_class := Some ''Wizard''\<rparr>)
   = (empty_session\<lparr>sess_class := Some ''Wizard'', cantrips := Some [''x'', ''y'', ''z''],
        level1_spells := Some [''q'', ''q'', ''q'', ''q'', ''q'', ''q'']\<rparr>,
      Redirect ''characters.step5_equipment'', [])
   \<and> ''x'' \<notin> set wizard_cantrips \<and> ''q'' \<notin> set wizard_level1_spells"
  by (simp add: spell_selection_def parse_spell_data_def empty_session_def
      wizard_cantrips_def wizard_level1_spells_def)

subsection \<open>Floats\<close>





lemma gold_exact:
  assumes "map_of class_starting_gold c = Some g"
  shows "float_of_int g = of_int g"
proof -
  have "g = 110 \<or> g = 155 \<or> g = 100 \<or> g = 55"
    using assms by (auto simp: class_starting_gold_def split: if_splits)
  moreover have "float_of_int 110 = 110" "float_of_int 155 = 155" "float_of_int 100 = 100"
    "float_of_int 55 = 55" by code_simp+
  ultimately show ?thesis by auto
qed

subsection \<open>Equipment step\<close>





lemma validate_over_budget:
  assumes "fields_ok (f_data form)" and "calculate_total_cost form = Inr tc"
    and "float_of_int (f_budget form) < tc"
  shows "EquipmentForm_validate form a
     = Inr (False, form\<lparr>f_remaining_funds := fsub (float_of_int (f_budget form)) tc,
                        f_total_cost := tc,
                        f_validation_errors := f_validation_errors form
                           @ [CostExceedsBudget tc (float_of_int (f_budget form))]\<rparr>)"
  unfolding EquipmentForm_validate_def
  apply (simp only: Let_def assms bind_err_def sum.case not_True_eq_False if_False)
  apply (simp only: assms if_True add_error_def)
  apply simp
  done









lemma starting_gold_class:
  "map_of class_starting_gold c = Some g \<Longrightarrow> c \<noteq> []"
  by (auto simp: class_starting_gold_def)

lemma step5_enter_eq:
  assumes "map_of class_starting_gold c = Some g"
  shows "step5_enter req s c
     = Inr ((if er_method req = GET \<and> py_truthy (er_referrer req)
                \<and> (case er_referrer req of None \<Rightarrow> False | Some r \<Rightarrow> py_in ''step4_skills'' r)
             then s\<lparr>coins_left := None, equipment := None\<rparr> else s)
              \<lparr>coins_left := Some [(''pp'', 0), (''gp'', g), (''sp'', 0), (''cp'', 0)],
               previous_class := Some c\<rparr>,
            session_dex_mod
              (if er_method req = GET \<and> py_truthy (er_referrer req)
                \<and> (case er_referrer req of None \<Rightarrow> False | Some r \<Rightarrow> py_in ''step4_skills'' r)
               then s\<lparr>coins_left := None, equipment := None\<rparr> else s),
            g)"
  unfolding step5_enter_def
  apply (simp only: Let_def assms option.case)
  apply (simp add: dict_get_def)
  done



lemma prepared_form_simps:
  "f_data (prepared_form d c g) = d"
  "f_budget (prepared_form d c g) = g"
  "f_char_class (prepared_form d c g) = Some c"
  "f_validation_errors (prepared_form d c g) = []"
  by (simp_all add: prepared_form_def EquipmentForm_init_def)



text \<open>
  C10. Once a class with starting gold is stored, every request to the equipment step,
  GET or POST, first sets the stored remaining funds to the starting gold of the class
  (Cleric 110, Fighter 155, Rogue 100, Wizard 55), all in gold pieces, and only then
  handles the request: the outcome of the step does not depend on the funds that were
  stored before, and after a GET the stored funds are the full starting gold.
\<close>

theorem step5_resets_funds:
  assumes "sess_class s = Some c" and "map_of class_starting_gold c = Some g"
  shows "class_starting_gold
           = [(''Cleric'', 110), (''Fighter'', 155), (''Rogue'', 100), (''Wizard'', 55)]
    \<and> (\<exists>s1 dex. step5_enter req s c = Inr (s1, dex, g)
          \<and> coins_left s1 = Some [(''pp'', 0), (''gp'', g), (''sp'', 0), (''cp'', 0)])
    \<and> step5_equipment req (s\<lparr>coins_left := old\<rparr>) = step5_equipment req s
    \<and> (er_method req = GET \<longrightarrow>
          (\<exists>s' pg. step5_equipment req s = Inr (s', RenderEquipment pg, [])
             \<and> coins_left s' = Some [(''pp'', 0), (''gp'', g), (''sp'', 0), (''cp'', 0)]
             \<and> pg_remaining_funds pg = of_int g))"
proof (intro conjI)
  show "class_starting_gold
           = [(''Cleric'', 110), (''Fighter'', 155), (''Rogue'', 100), (''Wizard'', 55)]"
    by (simp add: class_starting_gold_def)
  show "\<exists>s1 dex. step5_enter req s c = Inr (s1, dex, g)
          \<and> coins_left s1 = Some [(''pp'', 0), (''gp'', g), (''sp'', 0), (''cp'', 0)]"
    by (simp add: step5_enter_eq [OF assms(2)])
  have e: "step5_enter req (s\<lparr>coins_left := old\<rparr>) c = step5_enter req s c"
    by (simp add: step5_enter_eq [OF assms(2)] session_dex_mod_def)
  show "step5_equipment req (s\<lparr>coins_left := old\<rparr>) = step5_equipment req s"
    using assms(1) starting_gold_class [OF assms(2)]
    unfolding step5_equipment_def
    by (simp add: e)
  show "er_method req = GET \<longrightarrow>
          (\<exists>s' pg. step5_equipment req s = Inr (s', RenderEquipment pg, [])
             \<and> coins_left s' = Some [(''pp'', 0), (''gp'', g), (''sp'', 0), (''cp'', 0)]
             \<and> pg_remaining_funds pg = of_int g)"
  proof
    assume get: "er_method req = GET"
    have "step5_equipment req s
       = Inr ((if py_truthy (er_referrer req)
                  \<and> (case er_referrer req of None \<Rightarrow> False | Some r \<Rightarrow> py_in ''step4_skills'' r)
               then s\<lparr>coins_left := None, equipment := None\<rparr> else s)
                \<lparr>coins_left := Some [(''pp'', 0), (''gp'', g), (''sp'', 0), (''cp'', 0)],
                 previous_class := Some c\<rparr>,
              RenderEquipment
                \<lparr>pg_starting_funds = g,
                 pg_remaining_coins = convert_gp_to_coins (of_int g),
                 pg_remaining_funds = of_int g,
                 pg_preview = Some False, pg_equipment = None\<rparr>, [])"
      using starting_gold_class [OF assms(2)]
      unfolding step5_equipment_def
      apply (simp only: assms(1) option.case if_False step5_enter_eq [OF assms(2)] bind_err_def
          sum.case prod.case get)
      apply simp
      done
    then show "\<exists>s' pg. step5_equipment req s = Inr (s', RenderEquipment pg, [])
             \<and> coins_left s' = Some [(''pp'', 0), (''gp'', g), (''sp'', 0), (''cp'', 0)]
             \<and> pg_remaining_funds pg = of_int g"
      by simp
  qed
qed

theorem step5_resets_funds_witness:
  "sess_class (empty_session\<lparr>sess_class := Some ''Wizard'',
       coins_left := Some [(''pp'', 2), (''gp'', 8), (''sp'', 0), (''cp'', 0)]\<rparr>)
     = Some ''Wizard''
   \<and> map_of class_starting_gold ''Wizard'' = Some 55
   \<and> step5_equipment
        \<lparr>er_method = GET, er_referrer = None, er_action = None, er_formdata = no_formdata\<rparr>
        (empty_session\<lparr>sess_class := Some ''Wizard'',
           coins_left := Some [(''pp'', 2), (''gp'', 8), (''sp'', 0), (''cp'', 0)]\<rparr>)
     = Inr (empty_session\<lparr>sess_class := Some ''Wizard'',
              coins_left := Some [(''pp'', 0), (''gp'', 55), (''sp'', 0), (''cp'', 0)],
              previous_class := Some ''Wizard''\<rparr>,
            RenderEquipment
              \<lparr>pg_starting_funds = 55,
               pg_remaining_coins = [(''pp'', 5), (''gp'', 5), (''sp'', 0), (''cp'', 0)],
               pg_remaining_funds = 55, pg_preview = Some False, pg_equipment = None\<rparr>,
            [])"
proof -
  have c: "sess_class (empty_session\<lparr>sess_class := Some ''Wizard'',
       coins_left := Some [(''pp'', 2), (''gp'', 8), (''sp'', 0), (''cp'', 0)]\<rparr>)
     = Some ''Wizard''" by simp
  have g: "map_of class_starting_gold ''Wizard'' = Some 55"
    by (simp add: class_starting_gold_def)
  have cv: "convert_gp_to_coins 55 = [(''pp'', 5), (''gp'', 5), (''sp'', 0), (''cp'', 0)]"
    by code_simp
  have v: "step5_equipment
        \<lparr>er_method = GET, er_referrer = None, er_action = None, er_formdata = no_formdata\<rparr>
        (empty_session\<lparr>sess_class := Some ''Wizard'',
           coins_left := Some [(''pp'', 2), (''gp'', 8), (''sp'', 0), (''cp'', 0)]\<rparr>)
     = Inr (empty_session\<lparr>sess_class := Some ''Wizard'',
              coins_left := Some [(''pp'', 0), (''gp'', 55), (''sp'', 0), (''cp'', 0)],
              previous_class := Some ''Wizard''\<rparr>,
            RenderEquipment
              \<lparr>pg_starting_funds = 55,
               pg_remaining_coins = [(''pp'', 5), (''gp'', 5), (''sp'', 0), (''cp'', 0)],
               pg_remaining_funds = 55, pg_preview = Some False, pg_equipment = None\<rparr>,
            [])"
    by (simp add: step5_equipment_def step5_enter_eq [OF g] bind_err_def py_truthy_def cv
        empty_session_def)
  show ?thesis
    using c g v step5_resets_funds [OF c g, of
        "\<lparr>er_method = GET, er_referrer = None, er_action = None, er_formdata = no_formdata\<rparr>"]
    by simp
qed












text \<open>The sessions and the forms of the evaluated instances.\<close>

lemma example_sessions:
  "sess_class wizard_session = Some ''Wizard''"
  "sess_class new_wizard_session = Some ''Wizard''"
  "sess_class cleric_session = Some ''Cleric''"
  "map_of class_starting_gold ''Wizard'' = Some 55"
  "map_of class_starting_gold ''Cleric'' = Some 110"
  "session_dex_mod wizard_session = 0"
  "equipment wizard_session = None"
  "equipment cleric_session = None"
  "coins_left wizard_session = Some [(''pp'', 0), (''gp'', 55), (''sp'', 0), (''cp'', 0)]"
  "coins_left new_wizard_session = None"
  by (simp_all add: wizard_session_def new_wizard_session_def cleric_session_def
      empty_session_def class_starting_gold_def session_dex_mod_def)

lemma example_forms:
  "fields_ok dagger_form" "fd_armor dagger_form = None"
  "\<not> has_holy_symbol dagger_form" "\<not> has_arcane_focus dagger_form"
  "fields_ok club_form" "fd_armor club_form = None"
  "\<not> has_holy_symbol club_form" "\<not> has_arcane_focus club_form"
  "fields_ok mace_form" "fd_armor mace_form = None"
  "\<not> has_holy_symbol mace_form" "\<not> has_arcane_focus mace_form"
  "fields_ok shield_longsword_form" "fd_armor shield_longsword_form = None"
  "\<not> has_holy_symbol shield_longsword_form" "\<not> has_arcane_focus shield_longsword_form"
  "fields_ok magnifying_glass_form" "fields_ok exact_budget_form"
  "fields_ok crystal_form" "fd_armor crystal_form = None" "has_arcane_focus crystal_form"
  "py_truthy (arcane_focus_selection crystal_form)"
  "fields_ok leather_form" "fd_armor leather_form = Some ''light:Leather''"
  by (simp_all add: dagger_form_def club_form_def mace_form_def shield_longsword_form_def
      magnifying_glass_form_def exact_budget_form_def crystal_form_def leather_form_def
      no_formdata_def py_truthy_def)









text \<open>
  A selection whose prices add up to 55 gp exactly has a float total of
  55.00000000000001, above the budget of a Wizard, and is rejected.
\<close>

lemma exact_budget_cost:
  "calculate_total_cost (prepared_form exact_budget_form ''Wizard'' 55)
     = Inr (7740561859543041 / 140737488355328)"
  by code_simp

lemma exact_budget_rejected:
  "\<not> is_valid (prepared_form exact_budget_form ''Wizard'' 55) ''purchase''"
proof -
  let ?form = "prepared_form exact_budget_form ''Wizard'' 55"
  have fg: "float_of_int 55 = 55" using gold_exact [OF example_sessions(4)] by simp
  have 1: "fields_ok (f_data ?form)" by (simp add: prepared_form_simps example_forms)
  have 3: "float_of_int (f_budget ?form) < 7740561859543041 / 140737488355328"
    by (simp add: prepared_form_simps fg)
  from validate_over_budget [OF 1 exact_budget_cost 3, of "''purchase''"]
  show ?thesis by (simp add: is_valid_def)
qed












end
